theory Spec2Isabelle
  imports Complex_Main "HOL-Library.AList"
begin

section \<open>Objects, errors and effects\<close>

text \<open>
  The module \<open>core/nodes/network.py\<close> works on mutable Python objects that refer to each
  other: networks hold interfaces, interfaces refer back to networks, and the module-level
  queue \<open>ebq\<close> holds networks. Objects are therefore kept in stores indexed by
  references (the object's identity), and every method is a function from the state of
  the process to an outcome and the state it leaves behind. A raised exception is the
  outcome \<open>Inl e\<close>; the state is returned in that case too, since whatever was mutated
  before the \<open>raise\<close> stays mutated.
\<close>

type_synonym ifref = nat
type_synonym netref = nat

datatype error =
    ValueError string
  | KeyError
  | TypeError
  | AttributeError
  | CoreCommandError
  | CoreError string
  | PyException string
  | OverflowError
  | Inconsistent

datatype lock = ebtables_lock | updatelock | linked_lock netref

text \<open>
  What the process asks of the host. \<open>Cmd\<close> and \<open>RemoteCmd\<close> are the command strings
  handed to \<open>utils.cmd\<close> and to a distributed server's \<open>remote_cmd\<close>; the other
  constructors are the net-client primitives, whose command strings live in
  \<open>core/nodes/netclient.py\<close> and \<open>core/nodes/interface.py\<close>.
\<close>

datatype host_op =
    Cmd string
  | RemoteCmd string string
  | create_bridge string
  | delete_bridge string
  | set_interface_master string string
  | delete_interface string string
  | create_veth string string
  | delete_device string

datatype event = Acquire lock | Release lock | Host host_op | Sleep real

datatype NetworkPolicy = ACCEPT | DROP | OtherPolicy string

text \<open>
  Modelled from the spec: \<open>core/emulator/enumerations.py\<close> is missing.
  \<open>NetworkPolicy\<close> has the members ACCEPT and DROP (spec: policy \<open>\<in>\<close> {ACCEPT, DROP}),
  whose \<open>.value\<close> is the member's name as the filter table expects it.
  \<open>OtherPolicy\<close> stands for any other object found in the \<open>policy\<close> attribute, the case
  \<open>CoreNetwork.linked\<close> guards against.
\<close>

fun policy_value :: "NetworkPolicy \<Rightarrow> string" where
  "policy_value ACCEPT = ''ACCEPT''"
| "policy_value DROP = ''DROP''"
| "policy_value (OtherPolicy s) = s"

datatype LinkTypes = WIRELESS | WIRED

datatype pval = PInt int | PFloat real | PBool bool

record Session =
  sess_id :: int
  short_session_id :: string
  servers :: "string list"

record CoreNode =
  node_id :: int

record CoreInterface =
  node :: "CoreNode option"
  name :: string
  localname :: string
  hwaddr :: "string option"
  addrlist :: "string list"
  mtu :: int
  netifi :: "int option"
  net :: "netref option"
  othernet :: "netref option"
  params_dict :: "string \<Rightarrow> pval option"
  if_up :: bool

text \<open>
  A \<open>CoreNetwork\<close> object. \<open>netif_dict\<close> and \<open>linked_dict\<close> are the dictionaries \<open>_netif\<close> and
  \<open>_linked\<close>, kept as association lists in insertion order (Python dictionaries
  iterate in insertion order, and \<open>buildcmds\<close> and \<open>all_link_data\<close> iterate over them).
  \<open>session = None\<close> is the state after \<open>del self.session\<close>: reading the attribute
  raises. An unset \<open>brname\<close> is the empty string. \<open>cls\<close> is the class of the object,
  which decides the method a call such as \<open>self.attach\<close> runs. The lists stand for
  dictionaries, so the keys of each are distinct and its length is \<open>len\<close>.
\<close>

datatype NodeClass =
    CoreNetworkClass | GreTapBridge | CtrlNet | PtpNet | SwitchNode | HubNode | WlanNode
  | TunnelNode

record CoreNetwork =
  cls :: NodeClass
  net_id :: int
  session :: "Session option"
  brname :: string
  has_ebtables_chain :: bool
  up :: bool
  policy :: NetworkPolicy
  linktype :: LinkTypes
  ifindex :: int
  netif_dict :: "(int \<times> ifref) list"
  linked_dict :: "(ifref \<times> (ifref \<times> bool) list) list"

record EbtablesQueue =
  doupdateloop :: bool
  updatethread :: bool
  cmds :: "string list"
  updates :: "netref list"
  last_update_time :: "(netref \<times> real) list"

definition rate :: real where
  "rate = 3 / 10"

definition atomic_file :: string where
  "atomic_file = ''/tmp/pycore.ebtables.atomic''"

record world =
  nets :: "netref \<Rightarrow> CoreNetwork"
  ifs :: "ifref \<Rightarrow> CoreInterface"
  fresh :: ifref
  ebq :: EbtablesQueue
  trace :: "event list"
  clock_reads :: nat

text \<open>
  What the module takes from outside this repository's files: the two binaries' paths
  (\<open>core/constants.py\<close>), whether the host carries out an operation (it may depend on
  everything that happened before), the readings of \<open>time.monotonic()\<close> in the order
  they are taken, Python's \<open>int()\<close> on a string, \<open>netaddr.valid_ipv4\<close>, the text
  Python prints for a float, and \<open>int(bw / 1000)\<close>: the quotient is taken as a float, so
  that the integer is the float nearest to \<open>bw / 1000\<close> cut towards zero (not the exact
  quotient once \<open>bw\<close> has more than 53 bits), and \<open>OverflowError\<close>, here \<open>None\<close>, when
  the quotient is beyond the floats. Of this repository but not among its files here is
  \<open>getifindex\<close> (\<open>core/nodes/base.py\<close>), the index under which a node holds an
  interface.
\<close>

record env =
  EBTABLES_BIN :: string
  TC_BIN :: string
  host_ok :: "event list \<Rightarrow> host_op \<Rightarrow> bool"
  monotonic :: "nat \<Rightarrow> real"
  py_int :: "string \<Rightarrow> int option"
  valid_ipv4 :: "string \<Rightarrow> bool"
  str_float :: "real \<Rightarrow> string"
  int_truediv_1000 :: "int \<Rightarrow> int option"
  getifindex :: "CoreNode \<Rightarrow> ifref \<Rightarrow> int"

type_synonym 'a M = "world \<Rightarrow> (error + 'a) \<times> world"

definition ret :: "'a \<Rightarrow> 'a M" where
  "ret x w = (Inr x, w)"

definition throw :: "error \<Rightarrow> 'a M" where
  "throw e w = (Inl e, w)"

definition bnd :: "'a M \<Rightarrow> ('a \<Rightarrow> 'b M) \<Rightarrow> 'b M" where
  "bnd m f w = (case m w of (Inl e, w') \<Rightarrow> (Inl e, w') | (Inr x, w') \<Rightarrow> f x w')"

definition seq :: "'a M \<Rightarrow> 'b M \<Rightarrow> 'b M" where
  "seq m k = bnd m (\<lambda>_. k)"

definition modify :: "(world \<Rightarrow> world) \<Rightarrow> unit M" where
  "modify f w = (Inr (), f w)"

definition emit :: "event \<Rightarrow> unit M" where
  "emit e = modify (\<lambda>w. w\<lparr>trace := trace w @ [e]\<rparr>)"

text \<open>\<open>with l: body\<close>: the lock is released however the body ends.\<close>

definition with_lock :: "lock \<Rightarrow> 'a M \<Rightarrow> 'a M" where
  "with_lock l m w =
     (case m (w\<lparr>trace := trace w @ [Acquire l]\<rparr>) of
        (r, w') \<Rightarrow> (r, w'\<lparr>trace := trace w' @ [Release l]\<rparr>))"

text \<open>\<open>try: body except CoreCommandError: logging.exception(...)\<close>\<close>

definition except_CoreCommandError :: "unit M \<Rightarrow> unit M" where
  "except_CoreCommandError m w =
     (case m w of (Inl CoreCommandError, w') \<Rightarrow> (Inr (), w') | other \<Rightarrow> other)"

text \<open>A \<open>for\<close> loop over a list that its body does not change.\<close>

fun for_each :: "'a list \<Rightarrow> ('a \<Rightarrow> unit M) \<Rightarrow> unit M" where
  "for_each [] body = ret ()"
| "for_each (x # xs) body = seq (body x) (for_each xs body)"

text \<open>
  An operation on the host: it is recorded in the trace whether or not it succeeds, and
  a failure raises \<open>CoreCommandError\<close>.
\<close>

definition host :: "env \<Rightarrow> host_op \<Rightarrow> unit M" where
  "host E op w =
     (if host_ok E (trace w) op then Inr () else Inl CoreCommandError,
      w\<lparr>trace := trace w @ [Host op]\<rparr>)"

definition set_net :: "netref \<Rightarrow> (CoreNetwork \<Rightarrow> CoreNetwork) \<Rightarrow> unit M" where
  "set_net r f = modify (\<lambda>w. w\<lparr>nets := (nets w)(r := f (nets w r))\<rparr>)"

definition set_if :: "ifref \<Rightarrow> (CoreInterface \<Rightarrow> CoreInterface) \<Rightarrow> unit M" where
  "set_if r f = modify (\<lambda>w. w\<lparr>ifs := (ifs w)(r := f (ifs w r))\<rparr>)"

definition set_ebq :: "(EbtablesQueue \<Rightarrow> EbtablesQueue) \<Rightarrow> unit M" where
  "set_ebq f = modify (\<lambda>w. w\<lparr>ebq := f (ebq w)\<rparr>)"

section \<open>EbtablesQueue.buildcmds\<close>

definition cmds_extend :: "string list \<Rightarrow> unit M" where
  "cmds_extend cs = set_ebq (\<lambda>q. q\<lparr>cmds := cmds q @ cs\<rparr>)"

text \<open>The body of the inner loop of \<open>buildcmds\<close>, for the pair (netif1, netif2).\<close>

definition build_pair :: "netref \<Rightarrow> ifref \<Rightarrow> ifref \<times> bool \<Rightarrow> unit M" where
  "build_pair wlan netif1 item w =
     (let n = nets w wlan; netif2 = fst item; linked = snd item in
      if policy n = DROP \<and> linked then
        cmds_extend
          [''-A '' @ brname n @ '' -i '' @ localname (ifs w netif1) @ '' -o '' @
             localname (ifs w netif2) @ '' -j ACCEPT'',
           ''-A '' @ brname n @ '' -o '' @ localname (ifs w netif1) @ '' -i '' @
             localname (ifs w netif2) @ '' -j ACCEPT''] w
      else if policy n = ACCEPT \<and> \<not> linked then
        cmds_extend
          [''-A '' @ brname n @ '' -i '' @ localname (ifs w netif1) @ '' -o '' @
             localname (ifs w netif2) @ '' -j DROP'',
           ''-A '' @ brname n @ '' -o '' @ localname (ifs w netif1) @ '' -i '' @
             localname (ifs w netif2) @ '' -j DROP''] w
      else ret () w)"

definition buildcmds :: "netref \<Rightarrow> unit M" where
  "buildcmds wlan =
     with_lock (linked_lock wlan)
       (seq
         (\<lambda>w. if has_ebtables_chain (nets w wlan)
              then cmds_extend [''-F '' @ brname (nets w wlan)] w
              else seq (set_net wlan (\<lambda>n. n\<lparr>has_ebtables_chain := True\<rparr>))
                     (\<lambda>w. cmds_extend
                        [''-N '' @ brname (nets w wlan) @ '' -P '' @
                           policy_value (policy (nets w wlan)),
                         ''-A FORWARD --logical-in '' @ brname (nets w wlan) @ '' -j '' @
                           brname (nets w wlan)] w) w)
         (\<lambda>w. for_each (linked_dict (nets w wlan))
                (\<lambda>row. for_each (snd row) (build_pair wlan (fst row))) w))"

section \<open>CoreNetwork.linked, link and unlink\<close>

text \<open>
  \<open>self._netif[netif.netifi] != netif\<close>: indexing the dictionary raises \<open>KeyError\<close>
  when the index is not one of its keys (\<open>None\<close> never is); objects are compared by
  identity.
\<close>

definition check_attached :: "netref \<Rightarrow> ifref \<Rightarrow> unit M" where
  "check_attached self netif w =
     (case netifi (ifs w netif) of
        None \<Rightarrow> throw KeyError w
      | Some i \<Rightarrow>
          (case map_of (netif_dict (nets w self)) i of
             None \<Rightarrow> throw KeyError w
           | Some r \<Rightarrow>
               if r \<noteq> netif
               then throw (ValueError (''inconsistency for netif '' @ name (ifs w netif))) w
               else ret () w))"

text \<open>\<open>self._linked[netif1][netif2] = v\<close>\<close>

definition set_linked :: "netref \<Rightarrow> ifref \<Rightarrow> ifref \<Rightarrow> bool \<Rightarrow> unit M" where
  "set_linked self netif1 netif2 v w =
     (case map_of (linked_dict (nets w self)) netif1 of
        None \<Rightarrow> throw KeyError w
      | Some row \<Rightarrow>
          set_net self (\<lambda>n. n\<lparr>linked_dict :=
            AList.update netif1 (AList.update netif2 v row) (linked_dict n)\<rparr>) w)"

text \<open>The \<open>except KeyError\<close> branch of \<open>linked\<close>.\<close>

definition linked_default :: "netref \<Rightarrow> ifref \<Rightarrow> ifref \<Rightarrow> bool M" where
  "linked_default self netif1 netif2 w =
     (case policy (nets w self) of
        ACCEPT \<Rightarrow> seq (set_linked self netif1 netif2 True) (ret True) w
      | DROP \<Rightarrow> seq (set_linked self netif1 netif2 False) (ret False) w
      | OtherPolicy s \<Rightarrow> throw (PyException (''unknown policy: '' @ s)) w)"

definition linked :: "netref \<Rightarrow> ifref \<Rightarrow> ifref \<Rightarrow> bool M" where
  "linked self netif1 netif2 =
     seq (check_attached self netif1)
       (seq (check_attached self netif2)
         (\<lambda>w. case map_of (linked_dict (nets w self)) netif1 of
                None \<Rightarrow> linked_default self netif1 netif2 w
              | Some row \<Rightarrow>
                  (case map_of row netif2 of
                     None \<Rightarrow> linked_default self netif1 netif2 w
                   | Some l \<Rightarrow> ret l w)))"

text \<open>\<open>EbtablesQueue.ebchange\<close>, on the module's queue \<open>ebq\<close>.\<close>

definition ebchange :: "netref \<Rightarrow> unit M" where
  "ebchange wlan =
     with_lock updatelock
       (\<lambda>w. if wlan \<notin> set (updates (ebq w))
            then set_ebq (\<lambda>q. q\<lparr>updates := updates q @ [wlan]\<rparr>) w
            else ret () w)"

text \<open>
  \<open>unlink\<close> and \<open>link\<close>: the block under the adjacency lock yields whether the method
  returned from inside it; only otherwise is the queue told.
\<close>

definition unlink :: "netref \<Rightarrow> ifref \<Rightarrow> ifref \<Rightarrow> unit M" where
  "unlink self netif1 netif2 =
     bnd (with_lock (linked_lock self)
            (bnd (linked self netif1 netif2)
               (\<lambda>l. if \<not> l then ret True
                    else seq (set_linked self netif1 netif2 False) (ret False))))
       (\<lambda>returned. if returned then ret () else ebchange self)"

definition link :: "netref \<Rightarrow> ifref \<Rightarrow> ifref \<Rightarrow> unit M" where
  "link self netif1 netif2 =
     bnd (with_lock (linked_lock self)
            (bnd (linked self netif1 netif2)
               (\<lambda>l. if l then ret True
                    else seq (set_linked self netif1 netif2 True) (ret False))))
       (\<lambda>returned. if returned then ret () else ebchange self)"

text \<open>
  Reading the adjacency map without touching it: the stored entry for the ordered pair,
  and whether an interface is in the interface map under the index it records.
\<close>

definition entry :: "world \<Rightarrow> netref \<Rightarrow> ifref \<Rightarrow> ifref \<Rightarrow> bool option" where
  "entry w self a b =
     (case map_of (linked_dict (nets w self)) a of None \<Rightarrow> None | Some row \<Rightarrow> map_of row b)"

definition has_row :: "world \<Rightarrow> netref \<Rightarrow> ifref \<Rightarrow> bool" where
  "has_row w self a = (map_of (linked_dict (nets w self)) a \<noteq> None)"

definition attached :: "world \<Rightarrow> netref \<Rightarrow> ifref \<Rightarrow> bool" where
  "attached w self a =
     (case netifi (ifs w a) of
        None \<Rightarrow> False
      | Some i \<Rightarrow> map_of (netif_dict (nets w self)) i = Some a)"

definition index_missing :: "world \<Rightarrow> netref \<Rightarrow> ifref \<Rightarrow> bool" where
  "index_missing w self a =
     (case netifi (ifs w a) of
        None \<Rightarrow> True
      | Some i \<Rightarrow> map_of (netif_dict (nets w self)) i = None)"

definition policy_default :: "NetworkPolicy \<Rightarrow> bool option" where
  "policy_default p = (case p of ACCEPT \<Rightarrow> Some True | DROP \<Rightarrow> Some False | OtherPolicy s \<Rightarrow> None)"

section \<open>Text of numbers\<close>

text \<open>What an f-string prints for an integer: \<open>{n}\<close> in decimal, \<open>{n:x}\<close> in hexadecimal.\<close>

definition digit_char :: "nat \<Rightarrow> char" where
  "digit_char d = ''0123456789abcdef'' ! d"

fun str_nat :: "nat \<Rightarrow> string" where
  "str_nat n = (if n < 10 then [digit_char n] else str_nat (n div 10) @ [digit_char (n mod 10)])"

fun hex_nat :: "nat \<Rightarrow> string" where
  "hex_nat n = (if n < 16 then [digit_char n] else hex_nat (n div 16) @ [digit_char (n mod 16)])"

declare str_nat.simps [simp del] hex_nat.simps [simp del]

definition str_int :: "int \<Rightarrow> string" where
  "str_int i = (if i < 0 then ''-'' @ str_nat (nat (- i)) else str_nat (nat i))"

definition hex_int :: "int \<Rightarrow> string" where
  "hex_int i = (if i < 0 then ''-'' @ hex_nat (nat (- i)) else hex_nat (nat i))"

section \<open>CoreNetwork.linkconfig\<close>

text \<open>
  Modelled from the spec: \<open>CoreInterface.getparam\<close> and \<open>setparam\<close>
  (\<open>core/nodes/interface.py\<close>) are missing. Spec 4.C: get-param(k) reads the
  per-parameter cache; set-param(k, v) "returns true only when the new value differs
  from the cached one and updates the cache". A parameter never set reads as \<open>None\<close>.
\<close>

definition getparam :: "ifref \<Rightarrow> string \<Rightarrow> pval option M" where
  "getparam netif k w = ret (params_dict (ifs w netif) k) w"

definition setparam :: "ifref \<Rightarrow> string \<Rightarrow> pval option \<Rightarrow> bool M" where
  "setparam netif k v w =
     (if params_dict (ifs w netif) k = v then ret False w
      else seq (set_if netif (\<lambda>i. i\<lparr>params_dict := (params_dict i)(k := v)\<rparr>)) (ret True) w)"

text \<open>Python's truth value of a cached parameter.\<close>

fun truthy :: "pval option \<Rightarrow> bool" where
  "truthy None = False"
| "truthy (Some (PBool b)) = b"
| "truthy (Some (PInt i)) = (i \<noteq> 0)"
| "truthy (Some (PFloat x)) = (x \<noteq> 0)"

text \<open>
  Modelled from the spec: \<open>LinkOptions\<close> (\<open>core/emulator/emudata.py\<close>) is missing; the
  five options of spec 4.E, each unset (\<open>None\<close>) or a number. \<open>per\<close> is a float, over
  which \<open>float(loss)\<close> is the identity, as \<open>int(duplicate)\<close> is over the integer \<open>dup\<close>.
\<close>

record LinkOptions =
  bandwidth :: "int option"
  delay :: "int option"
  per :: "real option"
  dup :: "int option"
  jitter :: "int option"

text \<open>
  The block under \<open>if netif.setparam("bw", bw):\<close>; it yields \<open>changed\<close>. With \<open>bw\<close>
  unset, \<open>bw / 1000\<close> raises \<open>TypeError\<close>; \<open>int(bw / 1000)\<close> is the environment's, being
  computed through a float. \<open>netif.host_cmd\<close> hands the command to the host.
\<close>

definition linkconfig_tbf :: "env \<Rightarrow> netref \<Rightarrow> ifref \<Rightarrow> int option \<Rightarrow> bool M" where
  "linkconfig_tbf E self netif bw_opt w =
     (case bw_opt of
        None \<Rightarrow> throw TypeError w
      | Some bw \<Rightarrow>
          (case int_truediv_1000 E bw of
             None \<Rightarrow> throw OverflowError w
           | Some q \<Rightarrow>
          (let devname = localname (ifs w netif);
               tc = TC_BIN E @ '' qdisc replace dev '' @ devname;
               parent = ''root'';
               burst = max (2 * mtu (ifs w netif)) q;
               limit = 65535;
               tbf = ''tbf rate '' @ str_int bw @ '' burst '' @ str_int burst @ '' limit '' @
                     str_int limit
           in if bw > 0 then
                seq (if up (nets w self)
                     then host E (Cmd (tc @ '' '' @ parent @ '' handle 1: '' @ tbf))
                     else ret ())
                  (seq (setparam netif ''has_tbf'' (Some (PBool True))) (ret True)) w
              else if truthy (params_dict (ifs w netif) ''has_tbf'') \<and> bw \<le> 0 then
                seq (if up (nets w self)
                     then host E (Cmd (TC_BIN E @ '' qdisc delete dev '' @ devname @ '' '' @ parent))
                     else ret ())
                  (seq (setparam netif ''has_tbf'' (Some (PBool False)))
                     (seq (setparam netif ''has_netem'' (Some (PBool False))) (ret True))) w
              else ret False w)))"

text \<open>The netem specification built after \<open>if not changed: return\<close>.\<close>

definition netem_spec ::
  "env \<Rightarrow> int option \<Rightarrow> int option \<Rightarrow> real option \<Rightarrow> int option \<Rightarrow> string" where
  "netem_spec E delay_us jitter_us loss duplicate =
     ''netem'' @
     (case delay_us of None \<Rightarrow> [] | Some d \<Rightarrow> '' delay '' @ str_int d @ ''us'') @
     (case jitter_us of
        None \<Rightarrow> []
      | Some j \<Rightarrow>
          (if delay_us = None then '' delay 0us '' @ str_int j @ ''us 25%''
           else '' '' @ str_int j @ ''us 25%'')) @
     (case loss of
        None \<Rightarrow> []
      | Some l \<Rightarrow>
          (if l > 0 then '' loss '' @ (if 100 < l then str_int 100 else str_float E l) @ ''%''
           else [])) @
     (case duplicate of
        None \<Rightarrow> []
      | Some d \<Rightarrow>
          (if d > 0 then '' duplicate '' @ str_int (min d 100) @ ''%'' else []))"

definition le_zero_or_unset :: "'a::{zero,ord} option \<Rightarrow> bool" where
  "le_zero_or_unset v = (case v of None \<Rightarrow> True | Some x \<Rightarrow> x \<le> 0)"

text \<open>The rest of \<open>linkconfig\<close> after \<open>if not changed: return\<close>.\<close>

definition linkconfig_netem ::
  "env \<Rightarrow> netref \<Rightarrow> ifref \<Rightarrow> string \<Rightarrow> int option \<Rightarrow> int option \<Rightarrow> real option \<Rightarrow>
     int option \<Rightarrow> unit M" where
  "linkconfig_netem E self netif parent delay_us jitter_us loss duplicate w =
     (let devname = localname (ifs w netif);
          netem = netem_spec E delay_us jitter_us loss duplicate
      in if le_zero_or_unset delay_us \<and> le_zero_or_unset jitter_us \<and> le_zero_or_unset loss \<and>
            le_zero_or_unset duplicate
         then
           (if \<not> truthy (params_dict (ifs w netif) ''has_netem'') then ret () w
            else seq (if up (nets w self)
                      then host E (Cmd (TC_BIN E @ '' qdisc delete dev '' @ devname @ '' '' @
                                          parent @ '' handle 10:''))
                      else ret ())
                   (seq (setparam netif ''has_netem'' (Some (PBool False))) (ret ())) w)
         else if length netem > 1 then
           seq (if up (nets w self)
                then host E (Cmd (TC_BIN E @ '' qdisc replace dev '' @ devname @ '' '' @
                                    parent @ '' handle 10: '' @ netem))
                else ret ())
             (seq (setparam netif ''has_netem'' (Some (PBool True))) (ret ())) w
         else ret () w)"

definition linkconfig :: "env \<Rightarrow> netref \<Rightarrow> ifref \<Rightarrow> LinkOptions \<Rightarrow> unit M" where
  "linkconfig E self netif options =
     bnd (setparam netif ''bw'' (map_option PInt (bandwidth options)))
       (\<lambda>bw_changed.
     bnd (if bw_changed then linkconfig_tbf E self netif (bandwidth options) else ret False)
       (\<lambda>changed0.
     bnd (getparam netif ''has_tbf'')
       (\<lambda>has_tbf.
     bnd (setparam netif ''delay'' (map_option PInt (delay options)))
       (\<lambda>changed1.
     bnd (setparam netif ''loss'' (map_option PFloat (per options)))
       (\<lambda>changed2.
     bnd (setparam netif ''duplicate'' (map_option PInt (dup options)))
       (\<lambda>changed3.
     bnd (setparam netif ''jitter'' (map_option PInt (jitter options)))
       (\<lambda>changed4.
     if \<not> (changed0 \<or> changed1 \<or> changed2 \<or> changed3 \<or> changed4) then ret ()
     else linkconfig_netem E self netif (if truthy has_tbf then ''parent 1:1'' else ''root'')
            (delay options) (jitter options) (per options) (dup options))))))))"

text \<open>The state after \<open>netif.setparam(k, v)\<close>.\<close>

definition put_param :: "ifref \<Rightarrow> string \<Rightarrow> pval option \<Rightarrow> world \<Rightarrow> world" where
  "put_param netif k v w =
     w\<lparr>ifs := (ifs w)(netif := (ifs w netif)\<lparr>params_dict := (params_dict (ifs w netif))(k := v)\<rparr>)\<rparr>"

text \<open>The trace with everything but the host's operations left out.\<close>

definition host_ops :: "event list \<Rightarrow> host_op list" where
  "host_ops t = concat (map (\<lambda>e. case e of Host op \<Rightarrow> [op] | _ \<Rightarrow> []) t)"

text \<open>The cache of an interface holds exactly the requested options.\<close>

definition cache_matches :: "world \<Rightarrow> ifref \<Rightarrow> LinkOptions \<Rightarrow> bool" where
  "cache_matches w netif options =
     (params_dict (ifs w netif) ''bw'' = map_option PInt (bandwidth options) \<and>
      params_dict (ifs w netif) ''delay'' = map_option PInt (delay options) \<and>
      params_dict (ifs w netif) ''loss'' = map_option PFloat (per options) \<and>
      params_dict (ifs w netif) ''duplicate'' = map_option PInt (dup options) \<and>
      params_dict (ifs w netif) ''jitter'' = map_option PInt (jitter options))"

section \<open>Attaching interfaces\<close>

text \<open>
  Modelled from the spec: \<open>newifindex\<close> (\<open>core/nodes/base.py\<close>) is missing. The network
  holds its interfaces "indexed by a monotonic per-network index" and hands out "the
  next free index": from its counter on, the first index that is not a key of the
  interface map; the counter moves past it.
\<close>

function next_free :: "(int \<times> ifref) list \<Rightarrow> int \<Rightarrow> int" where
  "next_free d i = (if i \<in> fst ` set d then next_free d (i + 1) else i)"
  by pat_completeness auto
termination
proof (relation "measure (\<lambda>(d, i). card {k \<in> fst ` set d. i \<le> k})")
  show "wf (measure (\<lambda>(d, i). card {k \<in> fst ` set d. i \<le> k}))"
    by simp
next
  fix d :: "(int \<times> ifref) list" and i :: int
  assume "i \<in> fst ` set d"
  then have "i \<in> {k \<in> fst ` set d. i \<le> k}" and "i \<notin> {k \<in> fst ` set d. i + 1 \<le> k}"
    by simp_all
  moreover have "{k \<in> fst ` set d. i + 1 \<le> k} \<subseteq> {k \<in> fst ` set d. i \<le> k}"
    by auto
  ultimately have "{k \<in> fst ` set d. i + 1 \<le> k} \<subset> {k \<in> fst ` set d. i \<le> k}"
    by blast
  moreover have "finite {k \<in> fst ` set d. i \<le> k}"
    by simp
  ultimately have "card {k \<in> fst ` set d. i + 1 \<le> k} < card {k \<in> fst ` set d. i \<le> k}"
    by (rule psubset_card_mono [rotated])
  then show "((d, i + 1), (d, i)) \<in> measure (\<lambda>(d, i). card {k \<in> fst ` set d. i \<le> k})"
    by simp
qed

declare next_free.simps [simp del]

definition newifindex :: "netref \<Rightarrow> int M" where
  "newifindex self w =
     (let i = next_free (netif_dict (nets w self)) (ifindex (nets w self))
      in seq (set_net self (\<lambda>n. n\<lparr>ifindex := i + 1\<rparr>)) (ret i) w)"

text \<open>
  Modelled from the spec: \<open>CoreNetworkBase.attach\<close> (\<open>core/nodes/base.py\<close>) is missing.
  Spec 4.D: attach(iface) "assigns the next per-network index, inserts into the interface
  map, creates an empty adjacency row, sets the back-reference. Fails with Inconsistent
  if the interface is already owned." The index is recorded on the interface, where
  \<open>linked\<close> reads it.
\<close>

definition base_attach :: "netref \<Rightarrow> ifref \<Rightarrow> unit M" where
  "base_attach self netif w =
     (if net (ifs w netif) \<noteq> None then throw Inconsistent w
      else bnd (newifindex self)
             (\<lambda>i. seq (set_net self (\<lambda>n. n\<lparr>netif_dict := AList.update i netif (netif_dict n)\<rparr>))
                   (seq (set_net self
                           (\<lambda>n. n\<lparr>linked_dict := AList.update netif [] (linked_dict n)\<rparr>))
                      (set_if netif (\<lambda>f. f\<lparr>netifi := Some i, net := Some self\<rparr>)))) w)"

text \<open>\<open>CoreNetwork.attach\<close>\<close>

definition CoreNetwork_attach :: "env \<Rightarrow> netref \<Rightarrow> ifref \<Rightarrow> unit M" where
  "CoreNetwork_attach E self netif =
     seq (\<lambda>w. if up (nets w self)
              then host E (set_interface_master (brname (nets w self))
                             (localname (ifs w netif))) w
              else ret () w)
       (base_attach self netif)"

text \<open>\<open>PtpNet.attach\<close>\<close>

definition PtpNet_attach :: "env \<Rightarrow> netref \<Rightarrow> ifref \<Rightarrow> unit M" where
  "PtpNet_attach E self netif w =
     (if length (netif_dict (nets w self)) \<ge> 2
      then throw (ValueError ''Point-to-point links support at most 2 network interfaces'') w
      else CoreNetwork_attach E self netif w)"

text \<open>
  \<open>self.attach(netif)\<close>: the method of the object's class. Only \<open>PtpNet\<close> and \<open>WlanNode\<close>
  override \<open>CoreNetwork.attach\<close>; the override of \<open>WlanNode\<close> adds the position hook of
  its wireless model, an object outside this module that is left out here.
\<close>

definition attach :: "env \<Rightarrow> netref \<Rightarrow> ifref \<Rightarrow> unit M" where
  "attach E self netif w =
     (if cls (nets w self) = PtpNet then PtpNet_attach E self netif w
      else CoreNetwork_attach E self netif w)"

section \<open>CoreNetwork.linknet\<close>

text \<open>
  Modelled from the spec: the class \<open>Veth\<close> (\<open>core/nodes/interface.py\<close>) is missing.
  \<open>Veth(session, None, name, localname, start)\<close> is a new interface object with those two
  names that belongs to no node and no network; with \<open>start\<close> it creates the veth pair
  on the host ("create a veth pair with names ...") and is up.
\<close>

definition Veth :: "env \<Rightarrow> string \<Rightarrow> string \<Rightarrow> bool \<Rightarrow> ifref M" where
  "Veth E nm lnm start w =
     (let r = fresh w
      in seq (modify (\<lambda>w. w\<lparr>fresh := Suc r,
                 ifs := (ifs w)(r :=
                   \<lparr>node = None, name = nm, localname = lnm, hwaddr = None, addrlist = [],
                    mtu = 1500, netifi = None, net = None, othernet = None,
                    params_dict = (\<lambda>k. None), if_up = False\<rparr>)\<rparr>))
           (seq (if start
                 then seq (host E (create_veth lnm nm)) (set_if r (\<lambda>f. f\<lparr>if_up := True\<rparr>))
                 else ret ())
              (ret r)) w)"

text \<open>The two names \<open>linknet\<close> builds for the halves of the pair.\<close>

definition veth_localname :: "CoreNetwork \<Rightarrow> CoreNetwork \<Rightarrow> string \<Rightarrow> string" where
  "veth_localname n p sessionid =
     ''veth'' @ hex_int (net_id n) @ ''.'' @ hex_int (net_id p) @ ''.'' @ sessionid"

definition veth_name :: "CoreNetwork \<Rightarrow> CoreNetwork \<Rightarrow> string \<Rightarrow> string" where
  "veth_name n p sessionid =
     ''veth'' @ hex_int (net_id p) @ ''.'' @ hex_int (net_id n) @ ''.'' @ sessionid"

definition linknet :: "env \<Rightarrow> netref \<Rightarrow> netref \<Rightarrow> ifref M" where
  "linknet E self peer w =
     (case session (nets w self) of
        None \<Rightarrow> throw AttributeError w
      | Some sess \<Rightarrow>
          (let sessionid = short_session_id sess;
               lnm = veth_localname (nets w self) (nets w peer) sessionid;
               nm = veth_name (nets w self) (nets w peer) sessionid
           in if length lnm \<ge> 16
              then throw (ValueError (''interface local name '' @ lnm @ '' too long'')) w
              else if length nm \<ge> 16
              then throw (ValueError (''interface name '' @ nm @ '' too long'')) w
              else
                bnd (Veth E nm lnm (up (nets w self)))
                  (\<lambda>netif.
                seq (attach E self netif)
                  (seq (\<lambda>w. if up (nets w peer) \<and> brname (nets w peer) \<noteq> []
                           then host E (set_interface_master (brname (nets w peer))
                                          (name (ifs w netif))) w
                           else ret () w)
                     (bnd (newifindex peer)
                        (\<lambda>i.
                      seq (set_net peer
                             (\<lambda>n. n\<lparr>netif_dict := AList.update i netif (netif_dict n)\<rparr>))
                        (seq (with_lock (linked_lock peer)
                                (set_net peer
                                   (\<lambda>n. n\<lparr>linked_dict :=
                                      AList.update netif [] (linked_dict n)\<rparr>)))
                           (seq (set_if netif (\<lambda>f. f\<lparr>net := Some self, othernet := Some peer\<rparr>))
                              (ret netif))))))) w))"

text \<open>The state after the base \<open>attach\<close> of an interface that belongs to no network.\<close>

definition attached_world :: "netref \<Rightarrow> ifref \<Rightarrow> world \<Rightarrow> world" where
  "attached_world self netif w =
     (let i = next_free (netif_dict (nets w self)) (ifindex (nets w self))
      in w\<lparr>nets := (nets w)(self := (nets w self)
              \<lparr>ifindex := i + 1,
               netif_dict := netif_dict (nets w self) @ [(i, netif)],
               linked_dict := AList.update netif [] (linked_dict (nets w self))\<rparr>),
           ifs := (ifs w)(netif := (ifs w netif)\<lparr>netifi := Some i, net := Some self\<rparr>)\<rparr>)"

text \<open>
  The states \<open>linknet\<close> passes through when nothing fails: after the \<open>Veth\<close> object is
  made, and after it is registered with the peer network.
\<close>

definition veth_world :: "string \<Rightarrow> string \<Rightarrow> bool \<Rightarrow> world \<Rightarrow> world" where
  "veth_world nm lnm start w =
     w\<lparr>fresh := Suc (fresh w),
       ifs := (ifs w)(fresh w :=
         \<lparr>node = None, name = nm, localname = lnm, hwaddr = None, addrlist = [],
          mtu = 1500, netifi = None, net = None, othernet = None,
          params_dict = (\<lambda>k. None), if_up = start\<rparr>),
       trace := (if start then trace w @ [Host (create_veth lnm nm)] else trace w)\<rparr>"

definition peer_world :: "netref \<Rightarrow> netref \<Rightarrow> ifref \<Rightarrow> world \<Rightarrow> world" where
  "peer_world self peer netif w =
     (let i = next_free (netif_dict (nets w peer)) (ifindex (nets w peer))
      in w\<lparr>nets := (nets w)(peer := (nets w peer)
              \<lparr>ifindex := i + 1,
               netif_dict := netif_dict (nets w peer) @ [(i, netif)],
               linked_dict := AList.update netif [] (linked_dict (nets w peer))\<rparr>),
           ifs := (ifs w)(netif := (ifs w netif)\<lparr>net := Some self, othernet := Some peer\<rparr>),
           trace := trace w @ [Acquire (linked_lock peer), Release (linked_lock peer)]\<rparr>)"

text \<open>What \<open>linknet\<close> asks of the host when nothing fails.\<close>

definition linknet_events :: "world \<Rightarrow> netref \<Rightarrow> netref \<Rightarrow> string \<Rightarrow> string \<Rightarrow> event list" where
  "linknet_events w self peer nm lnm =
     (if up (nets w self)
      then [Host (create_veth lnm nm), Host (set_interface_master (brname (nets w self)) lnm)]
      else []) @
     (if up (nets w peer) \<and> brname (nets w peer) \<noteq> []
      then [Host (set_interface_master (brname (nets w peer)) nm)] else [])"

text \<open>The events added to the trace between two states.\<close>

definition new_events :: "world \<Rightarrow> world \<Rightarrow> event list" where
  "new_events w w' = drop (length (trace w)) (trace w')"

section \<open>PtpNet.all_link_data\<close>

text \<open>
  Modelled from the spec: \<open>LinkData\<close> (\<open>core/emulator/data.py\<close>) is missing. A link record
  for external reporting, with the fields \<open>PtpNet.all_link_data\<close> fills; a field it does
  not fill is \<open>None\<close>. \<open>message_type\<close> is the number of the message flag, 0 for
  \<open>MessageFlags.NONE\<close>.
\<close>

record LinkData =
  message_type :: int
  node1_id :: "int option"
  node2_id :: "int option"
  link_type :: "LinkTypes option"
  unidirectional :: "int option"
  ld_delay :: "pval option"
  ld_bandwidth :: "pval option"
  ld_per :: "pval option"
  ld_dup :: "pval option"
  ld_jitter :: "pval option"
  interface1_id :: "int option"
  interface1_name :: "string option"
  interface1_mac :: "string option"
  interface1_ip4 :: "string option"
  interface1_ip4_mask :: "int option"
  interface1_ip6 :: "string option"
  interface1_ip6_mask :: "int option"
  interface2_id :: "int option"
  interface2_name :: "string option"
  interface2_mac :: "string option"
  interface2_ip4 :: "string option"
  interface2_ip4_mask :: "int option"
  interface2_ip6 :: "string option"
  interface2_ip6_mask :: "int option"

text \<open>\<open>ip, _sep, mask = address.partition("/")\<close>\<close>

definition partition_ip :: "string \<Rightarrow> string" where
  "partition_ip address = takeWhile (\<lambda>c. c \<noteq> CHR ''/'') address"

definition partition_mask :: "string \<Rightarrow> string" where
  "partition_mask address = drop (Suc (length (partition_ip address))) address"

text \<open>
  The loop over \<open>addrlist\<close>, on the four variables it assigns; \<open>int(mask)\<close> raises
  \<open>ValueError\<close> on a text that is no integer.
\<close>

fun scan_addrlist ::
  "env \<Rightarrow> string list \<Rightarrow> string option \<times> int option \<times> string option \<times> int option \<Rightarrow>
     error + (string option \<times> int option \<times> string option \<times> int option)" where
  "scan_addrlist E [] acc = Inr acc"
| "scan_addrlist E (address # rest) (ip4, ip4_mask, ip6, ip6_mask) =
     (case py_int E (partition_mask address) of
        None \<Rightarrow>
          Inl (ValueError (''invalid literal for int() with base 10: '' @
                 [CHR 0x27] @ partition_mask address @ [CHR 0x27]))
      | Some m \<Rightarrow>
          if valid_ipv4 E (partition_ip address)
          then scan_addrlist E rest (Some (partition_ip address), Some m, ip6, ip6_mask)
          else scan_addrlist E rest (ip4, ip4_mask, Some (partition_ip address), Some m))"

definition lift :: "error + 'a \<Rightarrow> 'a M" where
  "lift r w = (case r of Inl e \<Rightarrow> (Inl e, w) | Inr x \<Rightarrow> (Inr x, w))"

text \<open>\<open>if1.node.id\<close> and the like: the attribute of \<open>None\<close> raises \<open>AttributeError\<close>.\<close>

definition node_of :: "ifref \<Rightarrow> CoreNode M" where
  "node_of netif w =
     (case node (ifs w netif) of None \<Rightarrow> throw AttributeError w | Some nd \<Rightarrow> ret nd w)"

text \<open>The first \<open>LinkData(...)\<close> of \<open>all_link_data\<close>, and the second with the ends swapped.\<close>

definition ptp_link_data ::
  "env \<Rightarrow> int \<Rightarrow> LinkTypes \<Rightarrow> int \<Rightarrow> ifref \<Rightarrow> CoreInterface \<Rightarrow> CoreNode \<Rightarrow>
     ifref \<Rightarrow> CoreInterface \<Rightarrow> CoreNode \<Rightarrow>
     string option \<times> int option \<times> string option \<times> int option \<Rightarrow>
     string option \<times> int option \<times> string option \<times> int option \<Rightarrow> LinkData" where
  "ptp_link_data E flags lt uni r1 if1 n1 r2 if2 n2 a1 a2 =
     \<lparr>message_type = flags, node1_id = Some (node_id n1), node2_id = Some (node_id n2),
      link_type = Some lt, unidirectional = Some uni,
      ld_delay = params_dict if1 ''delay'', ld_bandwidth = params_dict if1 ''bw'',
      ld_per = params_dict if1 ''loss'', ld_dup = params_dict if1 ''duplicate'',
      ld_jitter = params_dict if1 ''jitter'',
      interface1_id = Some (getifindex E n1 r1), interface1_name = Some (name if1),
      interface1_mac = hwaddr if1,
      interface1_ip4 = fst a1, interface1_ip4_mask = fst (snd a1),
      interface1_ip6 = fst (snd (snd a1)), interface1_ip6_mask = snd (snd (snd a1)),
      interface2_id = Some (getifindex E n2 r2), interface2_name = Some (name if2),
      interface2_mac = hwaddr if2,
      interface2_ip4 = fst a2, interface2_ip4_mask = fst (snd a2),
      interface2_ip6 = fst (snd (snd a2)), interface2_ip6_mask = snd (snd (snd a2))\<rparr>"

definition ptp_link_data_back ::
  "env \<Rightarrow> LinkTypes \<Rightarrow> ifref \<Rightarrow> CoreInterface \<Rightarrow> CoreNode \<Rightarrow>
     ifref \<Rightarrow> CoreInterface \<Rightarrow> CoreNode \<Rightarrow> LinkData" where
  "ptp_link_data_back E lt r1 if1 n1 r2 if2 n2 =
     \<lparr>message_type = 0, node1_id = Some (node_id n2), node2_id = Some (node_id n1),
      link_type = Some lt, unidirectional = Some 1,
      ld_delay = params_dict if2 ''delay'', ld_bandwidth = params_dict if2 ''bw'',
      ld_per = params_dict if2 ''loss'', ld_dup = params_dict if2 ''duplicate'',
      ld_jitter = params_dict if2 ''jitter'',
      interface1_id = Some (getifindex E n2 r2), interface1_name = None,
      interface1_mac = None, interface1_ip4 = None, interface1_ip4_mask = None,
      interface1_ip6 = None, interface1_ip6_mask = None,
      interface2_id = Some (getifindex E n1 r1), interface2_name = None,
      interface2_mac = None, interface2_ip4 = None, interface2_ip4_mask = None,
      interface2_ip6 = None, interface2_ip6_mask = None\<rparr>"

text \<open>
  Modelled from the spec: \<open>CoreInterface.getparams\<close> (\<open>core/nodes/interface.py\<close>) is
  missing; it gives the interface's "parameter tuple", the whole of its per-parameter
  cache, so two of them differ when the caches do.
\<close>

definition getparams_differ :: "CoreInterface \<Rightarrow> CoreInterface \<Rightarrow> bool" where
  "getparams_differ if1 if2 = (params_dict if1 \<noteq> params_dict if2)"

definition PtpNet_all_link_data :: "env \<Rightarrow> netref \<Rightarrow> int \<Rightarrow> LinkData list M" where
  "PtpNet_all_link_data E self flags w =
     (case netif_dict (nets w self) of
        [(i1, r1), (i2, r2)] \<Rightarrow>
          (let if1 = ifs w r1; if2 = ifs w r2;
               uni = (if getparams_differ if1 if2 then 1 else 0)
           in bnd (lift (scan_addrlist E (addrlist if1) (None, None, None, None)))
                (\<lambda>a1.
              bnd (lift (scan_addrlist E (addrlist if2) (None, None, None, None)))
                (\<lambda>a2.
              bnd (node_of r1)
                (\<lambda>n1.
              bnd (node_of r2)
                (\<lambda>n2.
              ret (ptp_link_data E flags (linktype (nets w self)) uni r1 if1 n1 r2 if2 n2 a1 a2 #
                   (if uni \<noteq> 0
                    then [ptp_link_data_back E (linktype (nets w self)) r1 if1 n1 r2 if2 n2]
                    else [])))))) w)
      | _ \<Rightarrow> ret [] w)"

text \<open>Every address of the list has a mask that \<open>int()\<close> reads.\<close>

definition masks_readable :: "env \<Rightarrow> string list \<Rightarrow> bool" where
  "masks_readable E addrs = list_all (\<lambda>a. py_int E (partition_mask a) \<noteq> None) addrs"

section \<open>What a method leaves unchanged\<close>

text \<open>
  \<open>preserves R m\<close>: from any state, the state \<open>m\<close> ends in (normally or by an exception) is
  related to it by \<open>R\<close>. The relations used: the dirty list did not grow; networks and
  interfaces are the same objects in the same state; the trace grew by events of a given
  set only.
\<close>

definition preserves :: "(world \<Rightarrow> world \<Rightarrow> bool) \<Rightarrow> 'a M \<Rightarrow> bool" where
  "preserves R m = (\<forall>w. R w (snd (m w)))"

definition updates_shrink :: "world \<Rightarrow> world \<Rightarrow> bool" where
  "updates_shrink w w' = (length (updates (ebq w')) \<le> length (updates (ebq w)))"

definition same_objects :: "world \<Rightarrow> world \<Rightarrow> bool" where
  "same_objects w w' = (nets w' = nets w \<and> ifs w' = ifs w)"

definition emits_only :: "event set \<Rightarrow> world \<Rightarrow> world \<Rightarrow> bool" where
  "emits_only S w w' = (\<exists>evs. trace w' = trace w @ evs \<and> set evs \<subseteq> S)"

text \<open>
  A relation that holds between a state and itself, chains, and is indifferent to an
  event of \<open>S\<close> in the trace, to a reading of the clock and to a change of the queue that
  does not make the dirty list longer; and one indifferent to changes of networks.
\<close>

definition frame_rel :: "event set \<Rightarrow> (world \<Rightarrow> world \<Rightarrow> bool) \<Rightarrow> bool" where
  "frame_rel S R =
     ((\<forall>w. R w w) \<and> (\<forall>a b c. R a b \<and> R b c \<longrightarrow> R a c) \<and>
      (\<forall>w e. e \<in> S \<longrightarrow> R w (w\<lparr>trace := trace w @ [e]\<rparr>)) \<and>
      (\<forall>w n. R w (w\<lparr>clock_reads := n\<rparr>)) \<and>
      (\<forall>w q. length (updates q) \<le> length (updates (ebq w)) \<longrightarrow> R w (w\<lparr>ebq := q\<rparr>)))"

definition nets_free :: "(world \<Rightarrow> world \<Rightarrow> bool) \<Rightarrow> bool" where
  "nets_free R = (\<forall>w n. R w (w\<lparr>nets := n\<rparr>))"

section \<open>EbtablesQueue: registration, the worker's pass, the atomic commit\<close>

text \<open>\<open>time.monotonic()\<close>: the next reading of the clock.\<close>

definition clock :: "env \<Rightarrow> real M" where
  "clock E w = (Inr (monotonic E (clock_reads w)), w\<lparr>clock_reads := Suc (clock_reads w)\<rparr>)"

text \<open>
  \<open>startupdateloop\<close>. Starting the thread is setting the handle; what the thread does is
  \<open>updateloop_pass\<close> below, once for each turn of its loop.
\<close>

definition startupdateloop :: "env \<Rightarrow> netref \<Rightarrow> unit M" where
  "startupdateloop E wlan =
     seq (with_lock updatelock
            (bnd (clock E)
               (\<lambda>t. set_ebq (\<lambda>q. q\<lparr>last_update_time :=
                                      AList.update wlan t (last_update_time q)\<rparr>))))
       (\<lambda>w. if doupdateloop (ebq w) then ret () w
            else set_ebq (\<lambda>q. q\<lparr>doupdateloop := True, updatethread := True\<rparr>) w)"

text \<open>
  \<open>stopupdateloop\<close>. A missing key is logged and ignored; \<open>join\<close> waits for a thread
  whose loop has seen the cleared flag, and changes nothing.
\<close>

definition stopupdateloop :: "netref \<Rightarrow> unit M" where
  "stopupdateloop wlan =
     seq (with_lock updatelock
            (set_ebq (\<lambda>q. q\<lparr>last_update_time := AList.delete wlan (last_update_time q)\<rparr>)))
       (\<lambda>w. if length (last_update_time (ebq w)) > 0 then ret () w
            else set_ebq (\<lambda>q. q\<lparr>doupdateloop := False, updatethread := False\<rparr>) w)"

definition ebatomiccmd :: "env \<Rightarrow> string \<Rightarrow> string" where
  "ebatomiccmd E cmd = EBTABLES_BIN E @ '' --atomic-file '' @ atomic_file @ '' '' @ cmd"

text \<open>
  \<open>lastupdate\<close>: the clock is read before the dictionary is indexed, and once more in
  the \<open>except KeyError\<close> branch.
\<close>

definition lastupdate :: "env \<Rightarrow> netref \<Rightarrow> real M" where
  "lastupdate E wlan =
     bnd (clock E)
       (\<lambda>now w. case map_of (last_update_time (ebq w)) wlan of
                  Some t \<Rightarrow> ret (now - t) w
                | None \<Rightarrow>
                    bnd (clock E)
                      (\<lambda>t. seq (set_ebq (\<lambda>q. q\<lparr>last_update_time :=
                                   AList.update wlan t (last_update_time q)\<rparr>))
                              (ret 0)) w)"

text \<open>\<open>updated\<close>: \<open>list.remove\<close> raises \<open>ValueError\<close> when the element is not in the list.\<close>

definition updated :: "env \<Rightarrow> netref \<Rightarrow> unit M" where
  "updated E wlan =
     bnd (clock E)
       (\<lambda>t. seq (set_ebq (\<lambda>q. q\<lparr>last_update_time := AList.update wlan t (last_update_time q)\<rparr>))
             (\<lambda>w. if wlan \<in> set (updates (ebq w))
                  then set_ebq (\<lambda>q. q\<lparr>updates := remove1 wlan (updates q)\<rparr>) w
                  else throw (ValueError ''list.remove(x): x not in list'') w))"

text \<open>
  \<open>CoreNetwork.host_cmd\<close>: the command runs on this host, then on every distributed
  server of the session.

  Modelled from the spec: \<open>session.distributed.execute\<close> (\<open>core/emulator/distributed.py\<close>)
  is missing. Spec 4.A: "a distributed facade broadcasts the same command to every
  configured remote executor"; a failure there is a command failure.
\<close>

definition host_cmd :: "env \<Rightarrow> netref \<Rightarrow> string \<Rightarrow> unit M" where
  "host_cmd E self args =
     seq (host E (Cmd args))
       (\<lambda>w. case session (nets w self) of
               None \<Rightarrow> throw AttributeError w
             | Some sess \<Rightarrow> for_each (servers sess) (\<lambda>srv. host E (RemoteCmd srv args)) w)"

definition ebcommit :: "env \<Rightarrow> netref \<Rightarrow> unit M" where
  "ebcommit E wlan =
     seq (host_cmd E wlan (ebatomiccmd E ''--atomic-save''))
       (seq (\<lambda>w. for_each (cmds (ebq w)) (\<lambda>c. host_cmd E wlan (ebatomiccmd E c)) w)
          (seq (set_ebq (\<lambda>q. q\<lparr>cmds := []\<rparr>))
             (seq (host_cmd E wlan (ebatomiccmd E ''--atomic-commit''))
                (except_CoreCommandError (host_cmd E wlan (''rm -f '' @ atomic_file))))))"

text \<open>
  The body of \<open>for wlan in self.updates\<close> in \<open>updateloop\<close>. Reading \<open>wlan.session\<close> of a
  network whose attribute was deleted raises, which the loop takes as the sign of a
  network of a closed session.
\<close>

definition update_one :: "env \<Rightarrow> netref \<Rightarrow> unit M" where
  "update_one E wlan w =
     (case session (nets w wlan) of
        None \<Rightarrow> updated E wlan w
      | Some sess \<Rightarrow>
          bnd (lastupdate E wlan)
            (\<lambda>elapsed. if elapsed > rate
                        then seq (buildcmds wlan) (seq (ebcommit E wlan) (updated E wlan))
                        else ret ()) w)"

text \<open>
  How the relations pass through the combinators and through the methods of the queue;
  the loop over the dirty list needs this to end.
\<close>

lemma frame_relD:
  assumes "frame_rel S R"
  shows "R w w" and "R a b \<Longrightarrow> R b c \<Longrightarrow> R a c"
    and "e \<in> S \<Longrightarrow> R w (w\<lparr>trace := trace w @ [e]\<rparr>)"
    and "R w (w\<lparr>clock_reads := n\<rparr>)"
    and "length (updates q) \<le> length (updates (ebq w)) \<Longrightarrow> R w (w\<lparr>ebq := q\<rparr>)"
  using assms unfolding frame_rel_def by blast+

lemma preserves_ret: "frame_rel S R \<Longrightarrow> preserves R (ret x)"
  by (simp add: preserves_def ret_def frame_relD)

lemma preserves_throw: "frame_rel S R \<Longrightarrow> preserves R (throw e)"
  by (simp add: preserves_def throw_def frame_relD)

lemma preserves_bnd:
  assumes f: "frame_rel S R" and m: "preserves R m" and k: "\<And>x. preserves R (k x)"
  shows "preserves R (bnd m k)"
  unfolding preserves_def
proof
  fix w
  obtain r w1 where mw: "m w = (r, w1)" by (cases "m w")
  have 1: "R w w1" using m mw unfolding preserves_def by (metis snd_conv)
  show "R w (snd (bnd m k w))"
  proof (cases r)
    case (Inl e)
    then show ?thesis using 1 mw by (simp add: bnd_def)
  next
    case (Inr x)
    have "R w1 (snd (k x w1))" using k unfolding preserves_def by blast
    with 1 have "R w (snd (k x w1))" by (rule frame_relD(2) [OF f])
    then show ?thesis using mw Inr by (simp add: bnd_def)
  qed
qed

lemma preserves_seq:
  "frame_rel S R \<Longrightarrow> preserves R m \<Longrightarrow> preserves R k \<Longrightarrow> preserves R (seq m k)"
  unfolding seq_def by (rule preserves_bnd)

lemma preserves_for_each:
  assumes "frame_rel S R" and "\<And>x. preserves R (body x)"
  shows "preserves R (for_each xs body)"
proof (induction xs)
  case Nil
  show ?case using assms(1) by (simp add: preserves_ret)
next
  case (Cons x xs)
  show ?case
    using preserves_seq [OF assms(1) assms(2) [of x] Cons.IH] by simp
qed

lemma preserves_host: "frame_rel S R \<Longrightarrow> Host op \<in> S \<Longrightarrow> preserves R (host E op)"
  by (simp add: preserves_def host_def frame_relD)

lemma preserves_with_lock:
  assumes f: "frame_rel S R" and a: "Acquire l \<in> S" and r: "Release l \<in> S"
    and m: "preserves R m"
  shows "preserves R (with_lock l m)"
  unfolding preserves_def
proof
  fix w :: world
  let ?w0 = "w\<lparr>trace := trace w @ [Acquire l]\<rparr>"
  obtain x w1 where mw: "m ?w0 = (x, w1)" by (cases "m ?w0")
  have "R w ?w0" by (rule frame_relD(3) [OF f a])
  moreover have "R ?w0 w1" using m mw unfolding preserves_def by (metis snd_conv)
  moreover have "R w1 (w1\<lparr>trace := trace w1 @ [Release l]\<rparr>)" by (rule frame_relD(3) [OF f r])
  ultimately have "R w (w1\<lparr>trace := trace w1 @ [Release l]\<rparr>)"
    using frame_relD(2) [OF f] by blast
  then show "R w (snd (with_lock l m w))"
    by (simp add: with_lock_def mw)
qed

lemma preserves_except:
  "preserves R m \<Longrightarrow> preserves R (except_CoreCommandError m)"
  unfolding preserves_def except_CoreCommandError_def
  by (auto split: prod.splits sum.splits error.splits) (metis snd_conv)+

lemma preserves_if:
  "preserves R a \<Longrightarrow> preserves R b \<Longrightarrow> preserves R (\<lambda>w. if c w then a w else b w)"
  by (simp add: preserves_def)

lemma preserves_case_option:
  "preserves R a \<Longrightarrow> (\<And>x. preserves R (b x)) \<Longrightarrow>
     preserves R (\<lambda>w. case f w of None \<Rightarrow> a w | Some x \<Rightarrow> b x w)"
  by (simp add: preserves_def split: option.splits)

lemma preserves_modify:
  "(\<And>w. R w (f w)) \<Longrightarrow> preserves R (modify f)"
  by (simp add: preserves_def modify_def)


lemma frame_rel_updates_shrink: "frame_rel UNIV updates_shrink"
  by (simp add: frame_rel_def updates_shrink_def)

lemma frame_rel_same_objects: "frame_rel UNIV same_objects"
  by (simp add: frame_rel_def same_objects_def)

lemma frame_rel_emits_only: "frame_rel S (emits_only S)"
  unfolding frame_rel_def emits_only_def
proof (intro conjI allI impI)
  fix a b c :: world
  assume "(\<exists>evs. trace b = trace a @ evs \<and> set evs \<subseteq> S) \<and>
      (\<exists>evs. trace c = trace b @ evs \<and> set evs \<subseteq> S)"
  then obtain e1 e2 where "trace b = trace a @ e1" "set e1 \<subseteq> S"
    "trace c = trace b @ e2" "set e2 \<subseteq> S" by blast
  then have "trace c = trace a @ (e1 @ e2) \<and> set (e1 @ e2) \<subseteq> S" by simp
  then show "\<exists>evs. trace c = trace a @ evs \<and> set evs \<subseteq> S" by blast
qed simp_all

lemma nets_free_updates_shrink: "nets_free updates_shrink"
  by (simp add: nets_free_def updates_shrink_def)

lemma nets_free_emits_only: "nets_free (emits_only S)"
  by (simp add: nets_free_def emits_only_def)

lemma preserves_clock: "frame_rel S R \<Longrightarrow> preserves R (clock E)"
  by (simp add: preserves_def clock_def frame_relD)

lemma preserves_set_ebq:
  "frame_rel S R \<Longrightarrow> (\<And>q. length (updates (f q)) \<le> length (updates q)) \<Longrightarrow>
     preserves R (set_ebq f)"
  by (simp add: preserves_def set_ebq_def modify_def frame_relD)

lemma preserves_set_net: "nets_free R \<Longrightarrow> preserves R (set_net r f)"
  by (simp add: preserves_def set_net_def modify_def nets_free_def)

lemma preserves_host_cmd:
  assumes f: "frame_rel S R" and h: "range Host \<subseteq> S"
  shows "preserves R (host_cmd E self args)"
proof -
  have ho: "preserves R (host E op)" for op
    using h by (intro preserves_host [OF f]) auto
  have th: "preserves R (throw AttributeError :: unit M)"
    by (rule preserves_throw [OF f])
  have "preserves R (\<lambda>w. case session (nets w self) of
               None \<Rightarrow> throw AttributeError w
             | Some sess \<Rightarrow> for_each (servers sess) (\<lambda>srv. host E (RemoteCmd srv args)) w)"
    by (rule preserves_case_option [OF th]) (rule preserves_for_each [OF f ho])
  then show ?thesis
    unfolding host_cmd_def by (rule preserves_seq [OF f ho])
qed


lemma preserves_dep:
  "(\<And>v. preserves R (g v)) \<Longrightarrow> preserves R (\<lambda>w. g w w)"
  by (simp add: preserves_def)

lemma preserves_ebcommit:
  assumes f: "frame_rel S R" and h: "range Host \<subseteq> S"
  shows "preserves R (ebcommit E wlan)"
proof -
  note hc = preserves_host_cmd [OF f h]
  have loop: "preserves R (\<lambda>w. for_each (cmds (ebq w)) (\<lambda>c. host_cmd E wlan (ebatomiccmd E c)) w)"
    by (rule preserves_dep) (rule preserves_for_each [OF f hc])
  have clr: "preserves R (set_ebq (\<lambda>q. q\<lparr>cmds := []\<rparr>))"
    by (rule preserves_set_ebq [OF f]) simp
  show ?thesis
    unfolding ebcommit_def
    by (intro preserves_seq [OF f] hc loop clr preserves_except)
qed

lemma preserves_lastupdate:
  assumes f: "frame_rel S R"
  shows "preserves R (lastupdate E wlan)"
proof -
  have st: "preserves R (set_ebq (\<lambda>q. q\<lparr>last_update_time :=
        AList.update wlan t (last_update_time q)\<rparr>))" for t
    by (rule preserves_set_ebq [OF f]) simp
  have br: "preserves R (\<lambda>w. case map_of (last_update_time (ebq w)) wlan of
                  Some t \<Rightarrow> ret (now - t) w
                | None \<Rightarrow>
                    bnd (clock E)
                      (\<lambda>t. seq (set_ebq (\<lambda>q. q\<lparr>last_update_time :=
                                   AList.update wlan t (last_update_time q)\<rparr>))
                              (ret 0)) w)" for now
  proof -
    have a: "preserves R (bnd (clock E)
                      (\<lambda>t. seq (set_ebq (\<lambda>q. q\<lparr>last_update_time :=
                                   AList.update wlan t (last_update_time q)\<rparr>))
                              (ret (0::real))))"
      by (intro preserves_bnd [OF f] preserves_clock [OF f] preserves_seq [OF f] st
          preserves_ret [OF f])
    have b: "preserves R (ret (now - t))" for t
      by (rule preserves_ret [OF f])
    show ?thesis
      using a b by (simp add: preserves_def split: option.splits)
  qed
  show ?thesis
    unfolding lastupdate_def
    by (intro preserves_bnd [OF f] preserves_clock [OF f] br)
qed

lemma preserves_updated:
  assumes f: "frame_rel S R"
  shows "preserves R (updated E wlan)"
proof -
  have st: "preserves R (set_ebq (\<lambda>q. q\<lparr>last_update_time :=
        AList.update wlan t (last_update_time q)\<rparr>))" for t
    by (rule preserves_set_ebq [OF f]) simp
  have rm: "preserves R (set_ebq (\<lambda>q. q\<lparr>updates := remove1 wlan (updates q)\<rparr>))"
    by (rule preserves_set_ebq [OF f]) (simp add: length_remove1)
  have br: "preserves R (\<lambda>w. if wlan \<in> set (updates (ebq w))
                  then set_ebq (\<lambda>q. q\<lparr>updates := remove1 wlan (updates q)\<rparr>) w
                  else throw (ValueError ''list.remove(x): x not in list'') w)"
    by (rule preserves_if [OF rm preserves_throw [OF f]])
  show ?thesis
    unfolding updated_def
    by (intro preserves_bnd [OF f] preserves_clock [OF f] preserves_seq [OF f] st br)
qed

lemma preserves_cmds_extend: "frame_rel S R \<Longrightarrow> preserves R (cmds_extend cs)"
  unfolding cmds_extend_def by (rule preserves_set_ebq) simp_all

lemma preserves_buildcmds:
  assumes f: "frame_rel S R" and n: "nets_free R"
    and l: "Acquire (linked_lock wlan) \<in> S" "Release (linked_lock wlan) \<in> S"
  shows "preserves R (buildcmds wlan)"
proof -
  have bp: "preserves R (build_pair wlan a item)" for a item
    unfolding preserves_def build_pair_def Let_def
    using preserves_cmds_extend [OF f] preserves_ret [OF f, of "()"]
    by (simp add: preserves_def)
  have rows: "preserves R (for_each rows (\<lambda>row. for_each (snd row) (build_pair wlan (fst row))))"
    for rows
    by (intro preserves_for_each [OF f] bp)
  have loop: "preserves R (\<lambda>w. for_each (linked_dict (nets w wlan))
                (\<lambda>row. for_each (snd row) (build_pair wlan (fst row))) w)"
    by (rule preserves_dep) (rule rows)
  have hd2: "preserves R (seq (set_net wlan (\<lambda>n. n\<lparr>has_ebtables_chain := True\<rparr>))
                     (\<lambda>w. cmds_extend
                        [''-N '' @ brname (nets w wlan) @ '' -P '' @
                           policy_value (policy (nets w wlan)),
                         ''-A FORWARD --logical-in '' @ brname (nets w wlan) @ '' -j '' @
                           brname (nets w wlan)] w))"
    by (intro preserves_seq [OF f] preserves_set_net [OF n])
      (rule preserves_dep, rule preserves_cmds_extend [OF f])
  have hd1: "preserves R (\<lambda>w. cmds_extend [''-F '' @ brname (nets w wlan)] w)"
    by (rule preserves_dep) (rule preserves_cmds_extend [OF f])
  have hd: "preserves R (\<lambda>w. if has_ebtables_chain (nets w wlan)
              then cmds_extend [''-F '' @ brname (nets w wlan)] w
              else seq (set_net wlan (\<lambda>n. n\<lparr>has_ebtables_chain := True\<rparr>))
                     (\<lambda>w. cmds_extend
                        [''-N '' @ brname (nets w wlan) @ '' -P '' @
                           policy_value (policy (nets w wlan)),
                         ''-A FORWARD --logical-in '' @ brname (nets w wlan) @ '' -j '' @
                           brname (nets w wlan)] w) w)"
    by (rule preserves_if [OF hd1 hd2])
  show ?thesis
    unfolding buildcmds_def
    by (intro preserves_with_lock [OF f l] preserves_seq [OF f] hd loop)
qed

lemma preserves_update_one:
  assumes f: "frame_rel S R" and n: "nets_free R" and h: "range Host \<subseteq> S"
    and l: "Acquire (linked_lock wlan) \<in> S" "Release (linked_lock wlan) \<in> S"
  shows "preserves R (update_one E wlan)"
proof -
  have work: "preserves R (if elapsed > rate
                        then seq (buildcmds wlan) (seq (ebcommit E wlan) (updated E wlan))
                        else ret ())" for elapsed :: real
    by (simp add: preserves_seq [OF f] preserves_buildcmds [OF f n l]
        preserves_ebcommit [OF f h] preserves_updated [OF f] preserves_ret [OF f])
  have live: "preserves R (bnd (lastupdate E wlan)
            (\<lambda>elapsed. if elapsed > rate
                        then seq (buildcmds wlan) (seq (ebcommit E wlan) (updated E wlan))
                        else ret ()))"
    by (intro preserves_bnd [OF f] preserves_lastupdate [OF f] work)
  show ?thesis
    using live preserves_updated [OF f, of E wlan]
    by (simp add: preserves_def update_one_def split: option.splits)
qed

text \<open>
  \<open>for wlan in self.updates\<close>, with the list changing under the loop: Python's list
  iterator keeps an index, takes the element at the index for as long as the index is
  within the list as it then is, and moves on by one, so that after the body removed
  the current element the next one is skipped. The loop ends because the body never
  makes the list longer.
\<close>

lemma update_one_shrinks:
  "update_one E wlan w = (r, w') \<Longrightarrow> length (updates (ebq w')) \<le> length (updates (ebq w))"
  using preserves_update_one [OF frame_rel_updates_shrink nets_free_updates_shrink, of wlan E]
  unfolding preserves_def updates_shrink_def by (metis UNIV_I subset_UNIV snd_conv)

function updates_loop :: "env \<Rightarrow> nat \<Rightarrow> unit M" where
  "updates_loop E i w =
     (if i < length (updates (ebq w))
      then (case update_one E (updates (ebq w) ! i) w of
              (Inl e, w') \<Rightarrow> (Inl e, w')
            | (Inr u, w') \<Rightarrow> updates_loop E (Suc i) w')
      else (Inr (), w))"
  by pat_completeness auto
termination
  apply (relation "measure (\<lambda>(E, i, w). length (updates (ebq w)) - i)")
   apply simp
  apply (auto dest!: update_one_shrinks [OF sym])
  done

declare updates_loop.simps [simp del]

text \<open>
  One turn of \<open>while self.doupdateloop\<close> in \<open>updateloop\<close>: the pass over the dirty list
  under the queue's lock, then the sleep. An exception ends the thread.
\<close>

definition updateloop_pass :: "env \<Rightarrow> unit M" where
  "updateloop_pass E = seq (with_lock updatelock (updates_loop E 0)) (emit (Sleep rate))"

section \<open>CoreNetwork.startup and shutdown\<close>

definition startup :: "env \<Rightarrow> netref \<Rightarrow> unit M" where
  "startup E self =
     seq (\<lambda>w. host E (create_bridge (brname (nets w self))) w)
       (set_net self (\<lambda>n. n\<lparr>has_ebtables_chain := False, up := True\<rparr>))"

text \<open>\<open>ebtablescmds(call, cmds)\<close>, with \<open>self.host_cmd\<close> for \<open>call\<close>.\<close>

definition ebtablescmds :: "env \<Rightarrow> netref \<Rightarrow> string list \<Rightarrow> unit M" where
  "ebtablescmds E self cs = with_lock ebtables_lock (for_each cs (host_cmd E self))"

text \<open>
  Modelled from the spec: \<open>netifs()\<close> (\<open>core/nodes/base.py\<close>) and the interfaces'
  \<open>shutdown()\<close> (\<open>core/nodes/interface.py\<close>) are missing. The first enumerates the
  interfaces of the interface map; the second "removes the underlying device" (spec
  4.C), and as on every shutdown path "errors during teardown are logged and the
  teardown proceeds" (spec 7).
\<close>

definition netifs :: "CoreNetwork \<Rightarrow> ifref list" where
  "netifs n = map snd (netif_dict n)"

definition interface_shutdown :: "env \<Rightarrow> ifref \<Rightarrow> unit M" where
  "interface_shutdown E netif =
     except_CoreCommandError (\<lambda>w. host E (delete_device (localname (ifs w netif))) w)"

text \<open>\<open>del self.session\<close> raises \<open>AttributeError\<close> when the attribute is not there.\<close>

definition del_session :: "netref \<Rightarrow> unit M" where
  "del_session self w =
     (case session (nets w self) of
        None \<Rightarrow> throw AttributeError w
      | Some sess \<Rightarrow> set_net self (\<lambda>n. n\<lparr>session := None\<rparr>) w)"

definition shutdown :: "env \<Rightarrow> netref \<Rightarrow> unit M" where
  "shutdown E self w =
     (if \<not> up (nets w self) then ret () w
      else
        seq (stopupdateloop self)
          (seq (except_CoreCommandError
                  (seq (\<lambda>w. host E (delete_bridge (brname (nets w self))) w)
                     (\<lambda>w. if has_ebtables_chain (nets w self)
                          then ebtablescmds E self
                                 [EBTABLES_BIN E @ '' -D FORWARD --logical-in '' @
                                    brname (nets w self) @ '' -j '' @ brname (nets w self),
                                  EBTABLES_BIN E @ '' -X '' @ brname (nets w self)] w
                          else ret () w)))
             (seq (\<lambda>w. for_each (netifs (nets w self)) (interface_shutdown E) w)
                (seq (set_net self (\<lambda>n. n\<lparr>netif_dict := []\<rparr>))
                   (seq (set_net self (\<lambda>n. n\<lparr>linked_dict := []\<rparr>))
                      (seq (del_session self)
                         (set_net self (\<lambda>n. n\<lparr>up := False\<rparr>))))))) w)"

text \<open>
  Whether, in a list of events, the host is asked for something at a moment when the
  lock \<open>l\<close> is held; \<open>h\<close> says whether it is held at the start.
\<close>

fun host_under :: "lock \<Rightarrow> bool \<Rightarrow> event list \<Rightarrow> bool" where
  "host_under l h [] = False"
| "host_under l h (Acquire l' # es) = host_under l (h \<or> l' = l) es"
| "host_under l h (Release l' # es) = host_under l (h \<and> l' \<noteq> l) es"
| "host_under l h (Host op # es) = (h \<or> host_under l h es)"
| "host_under l h (Sleep t # es) = host_under l h es"

text \<open>
  \<open>quiet self m\<close>: as long as the network has its session, \<open>m\<close> leaves networks and
  interfaces alone and ends normally or in a command failure. \<open>calm m\<close>: \<open>m\<close> leaves them
  alone and ends normally.
\<close>

definition quiet :: "netref \<Rightarrow> unit M \<Rightarrow> bool" where
  "quiet self m =
     (\<forall>w. session (nets w self) \<noteq> None \<longrightarrow>
          same_objects w (snd (m w)) \<and> fst (m w) \<in> {Inr (), Inl CoreCommandError})"

definition calm :: "unit M \<Rightarrow> bool" where
  "calm m = (\<forall>w. same_objects w (snd (m w)) \<and> fst (m w) = Inr ())"

text \<open>The state of a network object after the last four statements of \<open>shutdown\<close>.\<close>

definition shut :: "CoreNetwork \<Rightarrow> CoreNetwork" where
  "shut n = n\<lparr>netif_dict := [], linked_dict := [], session := None, up := False\<rparr>"

text \<open>
  The state after \<open>self._linked[a][b] = v\<close> when \<open>a\<close> has a row, and the exception the
  attachment check of \<open>linked\<close> ends in for an interface that fails it.
\<close>

definition store_linked :: "netref \<Rightarrow> ifref \<Rightarrow> ifref \<Rightarrow> bool \<Rightarrow> world \<Rightarrow> world" where
  "store_linked self a b v w =
     (case map_of (linked_dict (nets w self)) a of
        None \<Rightarrow> w
      | Some row \<Rightarrow>
          w\<lparr>nets := (nets w)(self := (nets w self)\<lparr>linked_dict :=
             AList.update a (AList.update b v row) (linked_dict (nets w self))\<rparr>)\<rparr>)"

definition attach_error :: "world \<Rightarrow> netref \<Rightarrow> ifref \<Rightarrow> error" where
  "attach_error w self a =
     (if index_missing w self a then KeyError
      else ValueError (''inconsistency for netif '' @ name (ifs w a)))"


definition stored_or_default :: "world \<Rightarrow> netref \<Rightarrow> ifref \<Rightarrow> ifref \<Rightarrow> bool option" where
  "stored_or_default w self a b =
     (case entry w self a b of
        Some l \<Rightarrow> Some l
      | None \<Rightarrow> policy_default (policy (nets w self)))"

text \<open>
  \<open>same_but self a b w w'\<close>: from \<open>w\<close> to \<open>w'\<close> the interfaces, every network's
  interface map and policy, the rows of every adjacency map and all its entries are the
  same, but for the one entry (a, b) of \<open>self\<close>.
\<close>

definition same_but :: "netref \<Rightarrow> ifref \<Rightarrow> ifref \<Rightarrow> world \<Rightarrow> world \<Rightarrow> bool" where
  "same_but self a b w w' =
     (ifs w' = ifs w \<and>
      (\<forall>r. netif_dict (nets w' r) = netif_dict (nets w r) \<and>
           policy (nets w' r) = policy (nets w r)) \<and>
      (\<forall>r c. has_row w' r c = has_row w r c) \<and>
      (\<forall>r c d. (r, c, d) \<noteq> (self, a, b) \<longrightarrow> entry w' r c d = entry w r c d))"

text \<open>The state after \<open>ebq.ebchange(wlan)\<close>.\<close>

definition mark_dirty :: "netref \<Rightarrow> world \<Rightarrow> world" where
  "mark_dirty wlan w =
     w\<lparr>ebq := (if wlan \<in> set (updates (ebq w)) then ebq w
                else (ebq w)\<lparr>updates := updates (ebq w) @ [wlan]\<rparr>),
       trace := trace w @ [Acquire updatelock, Release updatelock]\<rparr>"

text \<open>
  A network with two interfaces attached under the indices 0 and 1 and no adjacency
  entry yet, in a process whose queue is idle. Interface 3 records the index 7, which
  the network does not have; every other interface records the index 0, which holds
  interface 1.
\<close>

definition ex_if :: "string \<Rightarrow> int option \<Rightarrow> CoreInterface" where
  "ex_if nm i =
     \<lparr>node = None, name = nm, localname = nm, hwaddr = None, addrlist = [], mtu = 1500,
      netifi = i, net = None, othernet = None, params_dict = (\<lambda>k. None), if_up = True\<rparr>"

definition ex_session :: Session where
  "ex_session = \<lparr>sess_id = 1, short_session_id = ''1'', servers = []\<rparr>"

definition ex_net :: "NetworkPolicy \<Rightarrow> CoreNetwork" where
  "ex_net p =
     \<lparr>cls = CoreNetworkClass, net_id = 5, session = Some ex_session, brname = ''b.5.1'', has_ebtables_chain = False,
      up = True, policy = p, linktype = WIRED, ifindex = 2,
      netif_dict = [(0, 1), (1, 2)], linked_dict = [(1, []), (2, [])]\<rparr>"

definition ex_ebq :: EbtablesQueue where
  "ex_ebq = \<lparr>doupdateloop = False, updatethread = False, cmds = [], updates = [],
             last_update_time = []\<rparr>"

definition ex_world :: "NetworkPolicy \<Rightarrow> world" where
  "ex_world p =
     \<lparr>nets = (\<lambda>r. ex_net p),
      ifs = (\<lambda>r. if r = 1 then ex_if ''veth1'' (Some 0)
                else if r = 2 then ex_if ''veth2'' (Some 1)
                else if r = 3 then ex_if ''veth3'' (Some 7)
                else ex_if ''veth4'' (Some 0)),
      fresh = 10, ebq = ex_ebq, trace = [], clock_reads = 0\<rparr>"

text \<open>
  A host on which every operation succeeds, a clock that advances one second per
  reading, and the options of \<open>test_link_update\<close>. For a bandwidth below \<open>2^53\<close> the
  float quotient by 1000 is exact in its integer part, and this environment gives it,
  cut towards zero; the examples use no larger bandwidth, for which it answers with the
  overflow.
\<close>

definition ex_env :: env where
  "ex_env =
     \<lparr>EBTABLES_BIN = ''/sbin/ebtables'', TC_BIN = ''/sbin/tc'',
      host_ok = (\<lambda>t op. True), monotonic = (\<lambda>n. real n),
      py_int = (\<lambda>s. if s = ''24'' then Some 24 else if s = ''64'' then Some 64 else None),
      valid_ipv4 = (\<lambda>s. s = ''10.0.0.1'' \<or> s = ''10.0.0.2''),
      str_float = (\<lambda>x. if x = 25 then ''25.0'' else ''0.0''),
      int_truediv_1000 =
        (\<lambda>bw. if \<bar>bw\<bar> < 2 ^ 53
              then Some (if 0 \<le> bw then bw div 1000 else - ((- bw) div 1000))
              else None),
      getifindex = (\<lambda>nd r. 0)\<rparr>"

definition ex_options :: LinkOptions where
  "ex_options =
     \<lparr>bandwidth = Some 5000000, delay = Some 50, per = Some 25, dup = Some 25,
      jitter = Some 10\<rparr>"

text \<open>
  A point-to-point network that is up and has no interface yet, and interfaces that
  belong to no network.
\<close>

definition ex_ptp :: world where
  "ex_ptp =
     \<lparr>nets = (\<lambda>r. \<lparr>cls = PtpNet, net_id = 3, session = Some ex_session, brname = ''b.3.1'',
                   has_ebtables_chain = False, up = True, policy = ACCEPT, linktype = WIRED,
                   ifindex = 0, netif_dict = [], linked_dict = []\<rparr>),
      ifs = (\<lambda>r. ex_if ''eth0'' None),
      fresh = 10, ebq = ex_ebq, trace = [], clock_reads = 0\<rparr>"

text \<open>Two switches that are up and have no interface yet, with the ids \<open>i\<close> and \<open>j\<close>.\<close>

definition ex_switch :: "int \<Rightarrow> CoreNetwork" where
  "ex_switch i =
     \<lparr>cls = SwitchNode, net_id = i, session = Some ex_session,
      brname = ''b.'' @ str_int i @ ''.1'', has_ebtables_chain = False, up = True,
      policy = ACCEPT, linktype = WIRED, ifindex = 0, netif_dict = [], linked_dict = []\<rparr>"

definition ex_two :: "int \<Rightarrow> int \<Rightarrow> world" where
  "ex_two i j =
     \<lparr>nets = (\<lambda>r. if r = 0 then ex_switch i else ex_switch j),
      ifs = (\<lambda>r. ex_if ''eth0'' None),
      fresh = 10, ebq = ex_ebq, trace = [], clock_reads = 0\<rparr>"

text \<open>
  The point-to-point link of \<open>test_ptp\<close>: nodes 1 and 2, each with one interface, with
  the addresses 10.0.0.1/24 and 10.0.0.2/24; \<open>p2\<close> is the parameter cache of the second
  interface, the first interface's being empty.
\<close>

definition ex_node_if :: "int \<Rightarrow> string \<Rightarrow> (string \<Rightarrow> pval option) \<Rightarrow> CoreInterface" where
  "ex_node_if i addr p =
     \<lparr>node = Some \<lparr>node_id = i\<rparr>, name = ''eth0'', localname = ''veth'' @ str_int i @ ''.0.1'',
      hwaddr = Some ''00:00:00:aa:00:00'', addrlist = [addr], mtu = 1500, netifi = Some (i - 1),
      net = Some 0, othernet = None, params_dict = p, if_up = True\<rparr>"

definition ex_ptp_pair :: "(string \<Rightarrow> pval option) \<Rightarrow> world" where
  "ex_ptp_pair p2 =
     \<lparr>nets = (\<lambda>r. \<lparr>cls = PtpNet, net_id = 3, session = Some ex_session, brname = ''b.3.1'',
                   has_ebtables_chain = False, up = True, policy = ACCEPT, linktype = WIRED,
                   ifindex = 2, netif_dict = [(0, 1), (1, 2)],
                   linked_dict = [(1, []), (2, [])]\<rparr>),
      ifs = (\<lambda>r. if r = 1 then ex_node_if 1 ''10.0.0.1/24'' (\<lambda>k. None)
                else ex_node_if 2 ''10.0.0.2/24'' p2),
      fresh = 10, ebq = ex_ebq, trace = [], clock_reads = 0\<rparr>"

text \<open>
  The commands the spec gives for one rebuild of a network's chain, written as lists:
  the header (flush an existing chain, or create it with the policy as default and hook
  it into FORWARD), and for each entry of the adjacency map its two rules.
\<close>

definition chain_header :: "CoreNetwork \<Rightarrow> string list" where
  "chain_header n =
     (if has_ebtables_chain n then [''-F '' @ brname n]
      else [''-N '' @ brname n @ '' -P '' @ policy_value (policy n),
            ''-A FORWARD --logical-in '' @ brname n @ '' -j '' @ brname n])"

definition pair_rules :: "CoreNetwork \<Rightarrow> string \<Rightarrow> string \<Rightarrow> bool \<Rightarrow> string list" where
  "pair_rules n a b l =
     (if policy n = DROP \<and> l then
        [''-A '' @ brname n @ '' -i '' @ a @ '' -o '' @ b @ '' -j ACCEPT'',
         ''-A '' @ brname n @ '' -o '' @ a @ '' -i '' @ b @ '' -j ACCEPT'']
      else if policy n = ACCEPT \<and> \<not> l then
        [''-A '' @ brname n @ '' -i '' @ a @ '' -o '' @ b @ '' -j DROP'',
         ''-A '' @ brname n @ '' -o '' @ a @ '' -i '' @ b @ '' -j DROP'']
      else [])"

definition row_rules :: "CoreNetwork \<Rightarrow> (ifref \<Rightarrow> string) \<Rightarrow> ifref \<Rightarrow> (ifref \<times> bool) list \<Rightarrow> string list" where
  "row_rules n lname a row = concat (map (\<lambda>(b, l). pair_rules n (lname a) (lname b) l) row)"

definition chain_rules :: "CoreNetwork \<Rightarrow> (ifref \<Rightarrow> string) \<Rightarrow> string list" where
  "chain_rules n lname = concat (map (\<lambda>(a, row). row_rules n lname a row) (linked_dict n))"

definition add_cmds :: "string list \<Rightarrow> world \<Rightarrow> world" where
  "add_cmds cs w = w\<lparr>ebq := (ebq w)\<lparr>cmds := cmds (ebq w) @ cs\<rparr>\<rparr>"


text \<open>
  The names the spec gives the two halves of a veth pair are built from the ids "in
  hex". Read from the spec: the hexadecimal numeral of an integer is a nonempty text of
  the digits \<open>0123456789abcdef\<close>, most significant first, without a leading zero unless
  it is \<open>0\<close> itself, that denotes the number in base 16; a negative integer has a minus
  sign before the numeral of its absolute value.
\<close>

definition hex_digit :: "char \<Rightarrow> nat option" where
  "hex_digit c =
     map_of [(CHR ''0'', 0), (CHR ''1'', 1), (CHR ''2'', 2), (CHR ''3'', 3), (CHR ''4'', 4),
             (CHR ''5'', 5), (CHR ''6'', 6), (CHR ''7'', 7), (CHR ''8'', 8), (CHR ''9'', 9),
             (CHR ''a'', 10), (CHR ''b'', 11), (CHR ''c'', 12), (CHR ''d'', 13),
             (CHR ''e'', 14), (CHR ''f'', 15)] c"

fun hex_value :: "nat \<Rightarrow> string \<Rightarrow> nat option" where
  "hex_value acc [] = Some acc"
| "hex_value acc (c # cs) =
     (case hex_digit c of None \<Rightarrow> None | Some d \<Rightarrow> hex_value (16 * acc + d) cs)"

definition hex_numeral_nat :: "nat \<Rightarrow> string \<Rightarrow> bool" where
  "hex_numeral_nat n s =
     (s \<noteq> [] \<and> (hd s = CHR ''0'' \<longrightarrow> s = ''0'') \<and> hex_value 0 s = Some n)"

definition hex_numeral :: "int \<Rightarrow> string \<Rightarrow> bool" where
  "hex_numeral i s =
     (if i < 0
      then (case s of [] \<Rightarrow> False | c # cs \<Rightarrow> c = CHR ''-'' \<and> hex_numeral_nat (nat (- i)) cs)
      else hex_numeral_nat (nat i) s)"
section \<open>Properties\<close>

subsection \<open>Chain rebuild\<close>

lemma add_cmds_simps [simp]:
  "nets (add_cmds cs w) = nets w" "ifs (add_cmds cs w) = ifs w"
  "trace (add_cmds cs w) = trace w"
  "add_cmds [] w = w"
  "add_cmds cs (add_cmds ds w) = add_cmds (ds @ cs) w"
  by (simp_all add: add_cmds_def)

lemma cmds_extend_eq: "cmds_extend cs w = (Inr (), add_cmds cs w)"
  by (simp add: cmds_extend_def set_ebq_def modify_def add_cmds_def)

lemma build_pair_eq:
  "build_pair wlan a item w =
     (Inr (), add_cmds (pair_rules (nets w wlan) (localname (ifs w a))
        (localname (ifs w (fst item))) (snd item)) w)"
  by (simp add: build_pair_def pair_rules_def cmds_extend_eq ret_def Let_def)

lemma for_each_build_pair:
  "for_each row (build_pair wlan a) w =
     (Inr (), add_cmds (row_rules (nets w wlan) (\<lambda>r. localname (ifs w r)) a row) w)"
proof (induction row arbitrary: w)
  case Nil
  show ?case by (simp add: ret_def row_rules_def)
next
  case (Cons item row)
  have step: "for_each (item # row) (build_pair wlan a) w =
      for_each row (build_pair wlan a)
        (add_cmds (pair_rules (nets w wlan) (localname (ifs w a))
           (localname (ifs w (fst item))) (snd item)) w)"
    by (simp add: seq_def bnd_def build_pair_eq)
  show ?case
    unfolding step Cons.IH by (simp add: row_rules_def case_prod_unfold)
qed

lemma for_each_rows:
  "for_each rows (\<lambda>row. for_each (snd row) (build_pair wlan (fst row))) w =
     (Inr (), add_cmds (concat (map (\<lambda>(a, row).
        row_rules (nets w wlan) (\<lambda>r. localname (ifs w r)) a row) rows)) w)"
proof (induction rows arbitrary: w)
  case Nil
  show ?case by (simp add: ret_def)
next
  case (Cons r rows)
  have step: "for_each (r # rows) (\<lambda>row. for_each (snd row) (build_pair wlan (fst row))) w =
      for_each rows (\<lambda>row. for_each (snd row) (build_pair wlan (fst row)))
        (add_cmds (row_rules (nets w wlan) (\<lambda>r. localname (ifs w r)) (fst r) (snd r)) w)"
    by (simp add: seq_def bnd_def for_each_build_pair)
  show ?case
    unfolding step Cons.IH by (simp add: case_prod_unfold)
qed

lemma pair_rules_flag [simp]:
  "pair_rules (n\<lparr>has_ebtables_chain := v\<rparr>) = pair_rules n"
  by (intro ext) (simp add: pair_rules_def)

lemma chain_rules_flag [simp]:
  "chain_rules (n\<lparr>has_ebtables_chain := v\<rparr>) lname = chain_rules n lname"
  by (simp add: chain_rules_def row_rules_def)

lemma buildcmds_body:
  "for_each (linked_dict (nets w wlan))
      (\<lambda>row. for_each (snd row) (build_pair wlan (fst row))) w =
   (Inr (), add_cmds (chain_rules (nets w wlan) (\<lambda>r. localname (ifs w r))) w)"
  by (simp add: for_each_rows chain_rules_def)

text \<open>
  C1. \<open>buildcmds\<close> never fails. It appends to the pending commands: one flush command
  for the chain named after the bridge when the network has its chain already, and
  otherwise the chain's creation with the network's policy as default followed by the
  FORWARD jump on \<open>--logical-in\<close> of the bridge; then, for every entry (a, b) of the
  adjacency map in the map's order, two ACCEPT rules (a to b, b to a, by local names)
  when the policy is DROP and the entry is linked, two DROP rules when the policy is
  ACCEPT and the entry is not linked, and nothing otherwise. The flag is true
  afterwards; nothing else changes, and the adjacency lock is taken and released.
\<close>

theorem buildcmds_rebuilds_chain:
  "buildcmds wlan w =
     (Inr (),
      w\<lparr>nets := (nets w)(wlan := (nets w wlan)\<lparr>has_ebtables_chain := True\<rparr>),
        ebq := (ebq w)\<lparr>cmds := cmds (ebq w) @ chain_header (nets w wlan) @
                 chain_rules (nets w wlan) (\<lambda>r. localname (ifs w r))\<rparr>,
        trace := trace w @ [Acquire (linked_lock wlan), Release (linked_lock wlan)]\<rparr>)"
proof (cases "has_ebtables_chain (nets w wlan)")
  case True
  have e: "has_ebtables_chain (nets w wlan) = True"
    using True by simp
  have "(nets w wlan)\<lparr>has_ebtables_chain := True\<rparr> =
      (nets w wlan)\<lparr>has_ebtables_chain := has_ebtables_chain (nets w wlan)\<rparr>"
    by (simp only: e)
  then have "(nets w)(wlan := (nets w wlan)\<lparr>has_ebtables_chain := True\<rparr>) = nets w"
    by simp
  with True show ?thesis
    by (simp add: buildcmds_def with_lock_def seq_def bnd_def cmds_extend_eq buildcmds_body
        chain_header_def add_cmds_def)
next
  case False
  then show ?thesis
    by (simp add: buildcmds_def with_lock_def seq_def bnd_def cmds_extend_eq buildcmds_body
        chain_header_def add_cmds_def set_net_def modify_def)
qed

subsection \<open>The adjacency map: linked, link, unlink\<close>

lemma store_linked_frame [simp]:
  "ifs (store_linked self a b v w) = ifs w"
  "ebq (store_linked self a b v w) = ebq w"
  "trace (store_linked self a b v w) = trace w"
  "fresh (store_linked self a b v w) = fresh w"
  "clock_reads (store_linked self a b v w) = clock_reads w"
  "netif_dict (nets (store_linked self a b v w) r) = netif_dict (nets w r)"
  "policy (nets (store_linked self a b v w) r) = policy (nets w r)"
  by (simp_all add: store_linked_def split: option.splits)

lemma store_linked_other_net:
  "r \<noteq> self \<Longrightarrow> nets (store_linked self a b v w) r = nets w r"
  by (simp add: store_linked_def split: option.splits)

lemma entry_store_linked:
  "entry (store_linked self a b v w) r c d =
     (if r = self \<and> c = a \<and> d = b \<and> has_row w self a then Some v else entry w r c d)"
  by (auto simp: entry_def store_linked_def has_row_def update_conv' split: option.splits)

lemma has_row_store_linked [simp]:
  "has_row (store_linked self a b v w) r c = has_row w r c"
  by (auto simp: has_row_def store_linked_def update_conv' split: option.splits)

lemma attached_store_linked [simp]:
  "attached (store_linked self a b v w) r c = attached w r c"
  by (simp add: attached_def split: option.splits)

lemma index_missing_store_linked [simp]:
  "index_missing (store_linked self a b v w) r c = index_missing w r c"
  by (simp add: index_missing_def split: option.splits)

lemma set_linked_eq:
  "set_linked self a b v w =
     (if has_row w self a then (Inr (), store_linked self a b v w) else (Inl KeyError, w))"
  by (simp add: set_linked_def store_linked_def has_row_def set_net_def modify_def throw_def
      split: option.splits)

lemma check_attached_eq:
  "check_attached self a w =
     (if attached w self a then (Inr (), w) else (Inl (attach_error w self a), w))"
  by (simp add: check_attached_def attached_def attach_error_def index_missing_def
      throw_def ret_def split: option.splits)

lemma linked_default_eq:
  "linked_default self a b w =
     (case policy_default (policy (nets w self)) of
        None \<Rightarrow> (Inl (PyException (''unknown policy: '' @ policy_value (policy (nets w self)))), w)
      | Some v \<Rightarrow>
          if has_row w self a then (Inr v, store_linked self a b v w) else (Inl KeyError, w))"
  by (simp add: linked_default_def policy_default_def set_linked_eq seq_def bnd_def ret_def
      throw_def split: NetworkPolicy.splits)

lemma linked_eq:
  "linked self a b w =
     (if \<not> attached w self a then (Inl (attach_error w self a), w)
      else if \<not> attached w self b then (Inl (attach_error w self b), w)
      else case entry w self a b of
             Some l \<Rightarrow> (Inr l, w)
           | None \<Rightarrow> linked_default self a b w)"
  by (simp add: linked_def seq_def bnd_def check_attached_eq entry_def ret_def
      split: option.splits)

lemma ebchange_eq: "ebchange wlan w = (Inr (), mark_dirty wlan w)"
  by (simp add: ebchange_def with_lock_def mark_dirty_def set_ebq_def modify_def ret_def)

lemma store_linked_twice:
  "store_linked self a b v (store_linked self a b v' w) = store_linked self a b v w"
  by (simp add: store_linked_def update_conv' AList.update_last split: option.splits)

lemma stored_or_default_store [simp]:
  "has_row w self a \<Longrightarrow> stored_or_default (store_linked self a b v w) self a b = Some v"
  by (simp add: stored_or_default_def entry_store_linked)

lemma linked_ok:
  assumes "attached w self a" "attached w self b" "has_row w self a"
    and "stored_or_default w self a b = Some cur"
  shows "linked self a b w =
     (Inr cur, case entry w self a b of Some l \<Rightarrow> w | None \<Rightarrow> store_linked self a b cur w)"
  using assms
  by (auto simp: linked_eq linked_default_eq stored_or_default_def split: option.splits)


lemma trace_store_upd [simp]:
  "store_linked self a b v (w\<lparr>trace := t\<rparr>) = (store_linked self a b v w)\<lparr>trace := t\<rparr>"
  by (simp add: store_linked_def split: option.splits)

lemma pred_trace_upd [simp]:
  "attached (w\<lparr>trace := t\<rparr>) self a = attached w self a"
  "has_row (w\<lparr>trace := t\<rparr>) self a = has_row w self a"
  "entry (w\<lparr>trace := t\<rparr>) self a b = entry w self a b"
  "stored_or_default (w\<lparr>trace := t\<rparr>) self a b = stored_or_default w self a b"
  by (simp_all add: attached_def has_row_def entry_def stored_or_default_def
      cong: option.case_cong)

lemma link_eq:
  assumes "attached w self a" "attached w self b" "has_row w self a"
    and "stored_or_default w self a b = Some cur"
  shows "link self a b w =
     (Inr (),
      if cur
      then (case entry w self a b of Some l \<Rightarrow> w | None \<Rightarrow> store_linked self a b True w)
             \<lparr>trace := trace w @ [Acquire (linked_lock self), Release (linked_lock self)]\<rparr>
      else mark_dirty self ((store_linked self a b True w)
             \<lparr>trace := trace w @ [Acquire (linked_lock self), Release (linked_lock self)]\<rparr>))"
proof -
  let ?w0 = "w\<lparr>trace := trace w @ [Acquire (linked_lock self)]\<rparr>"
  have l: "linked self a b ?w0 =
     (Inr cur, case entry w self a b of Some l \<Rightarrow> ?w0 | None \<Rightarrow> store_linked self a b cur ?w0)"
    using linked_ok [of ?w0 self a b cur] assms by simp
  show ?thesis
  proof (cases cur)
    case True
    then show ?thesis
      by (simp add: link_def bnd_def with_lock_def l ret_def split: option.splits)
  next
    case False
    then show ?thesis
      using assms(3)
      by (simp add: link_def bnd_def seq_def with_lock_def l ret_def set_linked_eq
          store_linked_twice ebchange_eq split: option.splits)
  qed
qed

lemma unlink_eq:
  assumes "attached w self a" "attached w self b" "has_row w self a"
    and "stored_or_default w self a b = Some cur"
  shows "unlink self a b w =
     (Inr (),
      if \<not> cur
      then (case entry w self a b of Some l \<Rightarrow> w | None \<Rightarrow> store_linked self a b False w)
             \<lparr>trace := trace w @ [Acquire (linked_lock self), Release (linked_lock self)]\<rparr>
      else mark_dirty self ((store_linked self a b False w)
             \<lparr>trace := trace w @ [Acquire (linked_lock self), Release (linked_lock self)]\<rparr>))"
proof -
  let ?w0 = "w\<lparr>trace := trace w @ [Acquire (linked_lock self)]\<rparr>"
  have l: "linked self a b ?w0 =
     (Inr cur, case entry w self a b of Some l \<Rightarrow> ?w0 | None \<Rightarrow> store_linked self a b cur ?w0)"
    using linked_ok [of ?w0 self a b cur] assms by simp
  show ?thesis
  proof (cases cur)
    case False
    then show ?thesis
      by (simp add: unlink_def bnd_def with_lock_def l ret_def split: option.splits)
  next
    case True
    then show ?thesis
      using assms(3)
      by (simp add: unlink_def bnd_def seq_def with_lock_def l ret_def set_linked_eq
          store_linked_twice ebchange_eq split: option.splits)
  qed
qed

lemma same_but_refl [simp]: "same_but self a b w w"
  by (simp add: same_but_def)

lemma same_but_trace [simp]:
  "same_but self a b w (w'\<lparr>trace := t\<rparr>) = same_but self a b w w'"
  by (simp add: same_but_def)

lemma same_but_mark_dirty [simp]:
  "same_but self a b w (mark_dirty x w') = same_but self a b w w'"
  by (simp add: same_but_def mark_dirty_def has_row_def entry_def)

lemma same_but_store [simp]:
  "same_but self a b w (store_linked self a b v w') = same_but self a b w w'"
  by (auto simp: same_but_def entry_store_linked)

lemma linked_same_but: "same_but self a b w (snd (linked self a b w))"
  by (simp add: linked_eq linked_default_eq split: option.splits)

lemma link_same_but: "same_but self a b w (snd (link self a b w))"
  by (simp add: link_def bnd_def seq_def with_lock_def ret_def linked_eq linked_default_eq
      set_linked_eq ebchange_eq split: option.splits)

lemma unlink_same_but: "same_but self a b w (snd (unlink self a b w))"
  by (simp add: unlink_def bnd_def seq_def with_lock_def ret_def linked_eq linked_default_eq
      set_linked_eq ebchange_eq split: option.splits)

lemma same_but_linked_rev:
  assumes "same_but self a b w w'" and "a \<noteq> b"
  shows "fst (linked self b a w') = fst (linked self b a w)"
proof -
  from assms have e: "entry w' self b a = entry w self b a"
    and i: "ifs w' = ifs w"
    and n: "netif_dict (nets w' self) = netif_dict (nets w self)"
    and p: "policy (nets w' self) = policy (nets w self)"
    and h: "has_row w' self b = has_row w self b"
    by (auto simp: same_but_def)
  have at: "attached w' self c = attached w self c" for c
    by (simp add: attached_def i n cong: option.case_cong)
  have im: "index_missing w' self c = index_missing w self c" for c
    by (simp add: index_missing_def i n cong: option.case_cong)
  show ?thesis
    by (simp add: linked_eq linked_default_eq at attach_error_def im i e p h
        split: option.splits)
qed

lemma pred_mark_dirty [simp]:
  "attached (mark_dirty x w) self a = attached w self a"
  "has_row (mark_dirty x w) self a = has_row w self a"
  "entry (mark_dirty x w) self a b = entry w self a b"
  "stored_or_default (mark_dirty x w) self a b = stored_or_default w self a b"
  "nets (mark_dirty x w) = nets w"
  "ifs (mark_dirty x w) = ifs w"
  by (simp_all add: attached_def has_row_def entry_def stored_or_default_def mark_dirty_def
      cong: option.case_cong)

lemmas ex_defs = ex_world_def ex_net_def ex_if_def ex_ebq_def ex_session_def

lemma ex_attached [simp]:
  "attached (ex_world p) 0 (Suc 0)" "attached (ex_world p) 0 2"
  "\<not> attached (ex_world p) 0 3" "\<not> attached (ex_world p) 0 4"
  "index_missing (ex_world p) 0 3" "\<not> index_missing (ex_world p) 0 4"
  "has_row (ex_world p) 0 (Suc 0)" "has_row (ex_world p) 0 2"
  "entry (ex_world p) 0 (Suc 0) 2 = None" "entry (ex_world p) 0 2 (Suc 0) = None"
  "policy (nets (ex_world p) 0) = p"
  by (simp_all add: attached_def index_missing_def has_row_def entry_def ex_defs)

text \<open>
  What \<open>linked(a, b)\<close> does, case by case. For interfaces a and b that are both in the
  interface map under the index they record, and a row for a in the adjacency map, it
  returns the stored entry and changes nothing; with no entry it returns the policy
  default (true under ACCEPT, false under DROP) and stores it as the entry, and under any
  other policy it raises the unknown-policy exception. When a is not in the interface map
  under its recorded index the call fails and changes nothing: with \<open>KeyError\<close> when the
  index is not a key of the interface map (or none is recorded), and with the
  inconsistency \<open>ValueError\<close> naming a when the index holds another interface; the same
  for b once a has passed.
\<close>

lemma linked_cases:
  "(attached w self a \<and> attached w self b \<and> has_row w self a \<longrightarrow>
      (case entry w self a b of
         Some l \<Rightarrow> linked self a b w = (Inr l, w)
       | None \<Rightarrow>
           (case policy (nets w self) of
              ACCEPT \<Rightarrow> linked self a b w = (Inr True, store_linked self a b True w)
            | DROP \<Rightarrow> linked self a b w = (Inr False, store_linked self a b False w)
            | OtherPolicy s \<Rightarrow>
                linked self a b w = (Inl (PyException (''unknown policy: '' @ s)), w))) \<and>
      entry (store_linked self a b v w) self a b = Some v) \<and>
   (\<not> attached w self a \<longrightarrow>
      linked self a b w =
        (Inl (if index_missing w self a then KeyError
              else ValueError (''inconsistency for netif '' @ name (ifs w a))), w)) \<and>
   (attached w self a \<and> \<not> attached w self b \<longrightarrow>
      linked self a b w =
        (Inl (if index_missing w self b then KeyError
              else ValueError (''inconsistency for netif '' @ name (ifs w b))), w))"
  by (auto simp: linked_eq linked_default_eq attach_error_def policy_default_def
      entry_store_linked split: option.splits NetworkPolicy.splits)

text \<open>
  The cases on the example network: the default under DROP and under ACCEPT, a stored
  entry, an unknown policy, and an interface whose index (0) holds another interface.
\<close>

lemma linked_cases_example:
  "linked 0 1 2 (ex_world DROP) = (Inr False, store_linked 0 1 2 False (ex_world DROP)) \<and>
   entry (store_linked 0 1 2 False (ex_world DROP)) 0 1 2 = Some False \<and>
   linked 0 1 2 (ex_world ACCEPT) = (Inr True, store_linked 0 1 2 True (ex_world ACCEPT)) \<and>
   linked 0 1 2 (store_linked 0 1 2 True (ex_world DROP)) =
     (Inr True, store_linked 0 1 2 True (ex_world DROP)) \<and>
   linked 0 1 2 (ex_world (OtherPolicy ''x'')) =
     (Inl (PyException ''unknown policy: x''), ex_world (OtherPolicy ''x'')) \<and>
   linked 0 1 4 (ex_world DROP) =
     (Inl (ValueError ''inconsistency for netif veth4''), ex_world DROP)"
  using linked_cases [of "ex_world DROP" 0 1 2 False]
    linked_cases [of "ex_world ACCEPT" 0 1 2 True]
    linked_cases [of "store_linked 0 1 2 True (ex_world DROP)" 0 1 2 True]
    linked_cases [of "ex_world (OtherPolicy ''x'')" 0 1 2 True]
    linked_cases [of "ex_world DROP" 0 1 4 True]
  by (simp add: entry_store_linked) (simp add: ex_defs)

text \<open>
  C2. The claim has \<open>linked(a, b)\<close> fail with the inconsistency error whenever either
  interface is not attached to the network under its recorded index, and the check of
  \<open>linked\<close> is written to raise it: \<open>ValueError("inconsistency for netif ...")\<close>. The
  check reads \<open>self._netif[netif1.netifi] != netif1\<close>, and the lookup on its left raises
  \<open>KeyError\<close> before anything is compared when the recorded index is not a key of the
  interface map. On the example network the interface map has the indices 0 and 1, and
  interface 3, which is not in it, records the index 7: \<open>linked(3, 2)\<close> ends with
  \<open>KeyError\<close>, not with the inconsistency error, and leaves the state as it was.
\<close>

theorem linked_unattached_KeyError:
  "map_of (netif_dict (nets (ex_world DROP) 0)) 0 = Some 1 \<and>
   map_of (netif_dict (nets (ex_world DROP) 0)) 1 = Some 2 \<and>
   netifi (ifs (ex_world DROP) 3) = Some 7 \<and>
   map_of (netif_dict (nets (ex_world DROP) 0)) 7 = None \<and>
   \<not> attached (ex_world DROP) 0 3 \<and>
   linked 0 3 2 (ex_world DROP) = (Inl KeyError, ex_world DROP) \<and>
   fst (linked 0 3 2 (ex_world DROP)) \<noteq>
     Inl (ValueError (''inconsistency for netif '' @ name (ifs (ex_world DROP) 3)))"
  by (simp add: linked_eq attach_error_def) (simp add: ex_defs)


text \<open>
  C3, as amended. For attached interfaces a and b (a with a row) whose link state is
  \<open>cur\<close>, the stored entry or else the policy default: \<open>link(a, b)\<close> returns normally
  and leaves the entry true; it goes to the queue (takes the queue's lock and appends the
  network to \<open>updates\<close> unless it is there) exactly when \<open>cur\<close> was false. The map is
  left unwritten only when the entry was already stored as true: then no network and
  nothing of the queue changes. In every other case the networks are afterwards what
  storing true as the entry makes them, also when no entry was stored and the policy
  default was already true: then the default is written as the entry and the queue is
  not told. A second \<open>link(a, b)\<close> right after the first changes nothing at all but for
  taking and releasing the adjacency lock. \<open>unlink(a, b)\<close> is the mirror image with
  false.
\<close>

theorem link_unlink_notify:
  assumes "attached w self a" and "attached w self b" and "has_row w self a"
    and "stored_or_default w self a b = Some cur"
  shows
   "fst (link self a b w) = Inr () \<and>
    entry (snd (link self a b w)) self a b = Some True \<and>
    trace (snd (link self a b w)) =
      trace w @ [Acquire (linked_lock self), Release (linked_lock self)] @
      (if cur then [] else [Acquire updatelock, Release updatelock]) \<and>
    ebq (snd (link self a b w)) =
      (if cur \<or> self \<in> set (updates (ebq w)) then ebq w
       else (ebq w)\<lparr>updates := updates (ebq w) @ [self]\<rparr>) \<and>
    nets (snd (link self a b w)) =
      (if entry w self a b = Some True then nets w
       else nets (store_linked self a b True w)) \<and>
    link self a b (snd (link self a b w)) =
      (Inr (), (snd (link self a b w))\<lparr>trace := trace (snd (link self a b w)) @
         [Acquire (linked_lock self), Release (linked_lock self)]\<rparr>) \<and>
    fst (unlink self a b w) = Inr () \<and>
    entry (snd (unlink self a b w)) self a b = Some False \<and>
    trace (snd (unlink self a b w)) =
      trace w @ [Acquire (linked_lock self), Release (linked_lock self)] @
      (if cur then [Acquire updatelock, Release updatelock] else []) \<and>
    ebq (snd (unlink self a b w)) =
      (if \<not> cur \<or> self \<in> set (updates (ebq w)) then ebq w
       else (ebq w)\<lparr>updates := updates (ebq w) @ [self]\<rparr>) \<and>
    nets (snd (unlink self a b w)) =
      (if entry w self a b = Some False then nets w
       else nets (store_linked self a b False w))"
proof -
  let ?w1 = "snd (link self a b w)"
  have e1: "entry ?w1 self a b = Some True"
    using assms by (auto simp: link_eq [OF assms] entry_store_linked stored_or_default_def
        split: option.splits)
  have a1: "attached ?w1 self a" "attached ?w1 self b" "has_row ?w1 self a"
    using assms(1-3) by (auto simp: link_eq [OF assms] split: option.splits)
  have s1: "stored_or_default ?w1 self a b = Some True"
    using e1 by (simp add: stored_or_default_def)
  have l2: "link self a b ?w1 =
      (Inr (), ?w1\<lparr>trace := trace ?w1 @ [Acquire (linked_lock self), Release (linked_lock self)]\<rparr>)"
    using link_eq [OF a1 s1] e1 by simp
  have t1: "trace ?w1 = trace w @ [Acquire (linked_lock self), Release (linked_lock self)] @
      (if cur then [] else [Acquire updatelock, Release updatelock])"
    by (simp add: link_eq [OF assms] mark_dirty_def split: option.splits)
  have q1: "ebq ?w1 = (if cur \<or> self \<in> set (updates (ebq w)) then ebq w
       else (ebq w)\<lparr>updates := updates (ebq w) @ [self]\<rparr>)"
    by (simp add: link_eq [OF assms] mark_dirty_def split: option.splits)
  have n1: "nets ?w1 =
      (if entry w self a b = Some True then nets w else nets (store_linked self a b True w))"
    using assms(4)
    by (auto simp: link_eq [OF assms] stored_or_default_def split: option.splits)
  let ?u1 = "snd (unlink self a b w)"
  have u1: "fst (unlink self a b w) = Inr ()"
    using unlink_eq [OF assms] by simp
  have ue: "entry ?u1 self a b = Some False"
    using assms by (auto simp: unlink_eq [OF assms] entry_store_linked stored_or_default_def
        split: option.splits)
  have ut: "trace ?u1 = trace w @ [Acquire (linked_lock self), Release (linked_lock self)] @
      (if cur then [Acquire updatelock, Release updatelock] else [])"
    by (simp add: unlink_eq [OF assms] mark_dirty_def split: option.splits)
  have uq: "ebq ?u1 = (if \<not> cur \<or> self \<in> set (updates (ebq w)) then ebq w
       else (ebq w)\<lparr>updates := updates (ebq w) @ [self]\<rparr>)"
    by (simp add: unlink_eq [OF assms] mark_dirty_def split: option.splits)
  have un: "nets ?u1 =
      (if entry w self a b = Some False then nets w else nets (store_linked self a b False w))"
    using assms(4)
    by (auto simp: unlink_eq [OF assms] stored_or_default_def split: option.splits)
  have f1: "fst (link self a b w) = Inr ()"
    using link_eq [OF assms] by simp
  show ?thesis
    using f1 e1 t1 q1 n1 l2 u1 ue ut uq un by (simp only: simp_thms)
qed


text \<open>
  On the example network under DROP, where (1, 2) has no entry: \<open>link\<close> stores true and
  marks the network dirty; \<open>unlink\<close> stores the default, false, as the entry and leaves
  the queue alone.
\<close>

theorem link_unlink_notify_witness:
  "fst (link 0 1 2 (ex_world DROP)) = Inr () \<and>
   entry (snd (link 0 1 2 (ex_world DROP))) 0 1 2 = Some True \<and>
   trace (snd (link 0 1 2 (ex_world DROP))) =
     [Acquire (linked_lock 0), Release (linked_lock 0), Acquire updatelock, Release updatelock] \<and>
   updates (ebq (snd (link 0 1 2 (ex_world DROP)))) = [0] \<and>
   nets (snd (link 0 1 2 (ex_world DROP))) = nets (store_linked 0 1 2 True (ex_world DROP)) \<and>
   fst (unlink 0 1 2 (ex_world DROP)) = Inr () \<and>
   entry (snd (unlink 0 1 2 (ex_world DROP))) 0 1 2 = Some False \<and>
   trace (snd (unlink 0 1 2 (ex_world DROP))) =
     [Acquire (linked_lock 0), Release (linked_lock 0)] \<and>
   updates (ebq (snd (unlink 0 1 2 (ex_world DROP)))) = [] \<and>
   nets (snd (unlink 0 1 2 (ex_world DROP))) = nets (store_linked 0 1 2 False (ex_world DROP))"
  using link_unlink_notify [of "ex_world DROP" 0 1 2 False]
  by (simp add: stored_or_default_def policy_default_def) (simp add: ex_defs)

text \<open>
  C3 as stated fails: on the example network under ACCEPT the pair (1, 2) has no stored
  entry and \<open>linked(1, 2)\<close> is true, the target state of \<open>link\<close>. \<open>link(1, 2)\<close> does not
  tell the queue, but it does write the map: the entry, absent before, is stored as true,
  and the networks are no longer what they were.
\<close>

theorem link_writes_default_counterexample:
  "attached (ex_world ACCEPT) 0 1 \<and> attached (ex_world ACCEPT) 0 2 \<and>
   fst (linked 0 1 2 (ex_world ACCEPT)) = Inr True \<and>
   entry (ex_world ACCEPT) 0 1 2 = None \<and>
   fst (link 0 1 2 (ex_world ACCEPT)) = Inr () \<and>
   trace (snd (link 0 1 2 (ex_world ACCEPT))) =
     [Acquire (linked_lock 0), Release (linked_lock 0)] \<and>
   ebq (snd (link 0 1 2 (ex_world ACCEPT))) = ebq (ex_world ACCEPT) \<and>
   entry (snd (link 0 1 2 (ex_world ACCEPT))) 0 1 2 = Some True \<and>
   linked_dict (nets (snd (link 0 1 2 (ex_world ACCEPT))) 0) \<noteq>
     linked_dict (nets (ex_world ACCEPT) 0) \<and>
   nets (snd (link 0 1 2 (ex_world ACCEPT))) \<noteq> nets (ex_world ACCEPT)"
proof -
  let ?w = "ex_world ACCEPT"
  have s: "stored_or_default ?w 0 (Suc 0) 2 = Some True"
    by (simp add: stored_or_default_def policy_default_def)
  have l: "link 0 (Suc 0) 2 ?w =
      (Inr (), (store_linked 0 (Suc 0) 2 True ?w)
         \<lparr>trace := trace ?w @ [Acquire (linked_lock 0), Release (linked_lock 0)]\<rparr>)"
    using link_eq [of ?w 0 "Suc 0" 2 True] s by simp
  have k: "fst (linked 0 (Suc 0) 2 ?w) = Inr True"
    by (simp add: linked_eq linked_default_eq policy_default_def)
  have e: "entry (snd (link 0 (Suc 0) 2 ?w)) 0 (Suc 0) 2 = Some True"
    by (simp add: l entry_store_linked)
  have d: "linked_dict (nets (snd (link 0 (Suc 0) 2 ?w)) 0) \<noteq> linked_dict (nets ?w 0)"
  proof
    assume "linked_dict (nets (snd (link 0 (Suc 0) 2 ?w)) 0) = linked_dict (nets ?w 0)"
    then have "entry (snd (link 0 (Suc 0) 2 ?w)) 0 (Suc 0) 2 = entry ?w 0 (Suc 0) 2"
      by (simp add: entry_def)
    with e show False
      by simp
  qed
  then have n: "nets (snd (link 0 (Suc 0) 2 ?w)) \<noteq> nets ?w"
    by auto
  have t: "trace (snd (link 0 (Suc 0) 2 ?w)) = [Acquire (linked_lock 0), Release (linked_lock 0)]"
    "ebq (snd (link 0 (Suc 0) 2 ?w)) = ebq ?w"
    by (simp_all add: l) (simp add: ex_defs)
  show ?thesis
    using k l e d n t by simp
qed

text \<open>
  C4, as amended. The adjacency map is directional: \<open>link(a, b)\<close>, \<open>unlink(a, b)\<close> and
  \<open>linked(a, b)\<close> change at most the entry (a, b) of the network; every other entry,
  (b, a) included when a and b differ, stays as it was, so that \<open>linked(b, a)\<close> returns
  after each of them what it returned before.
\<close>

theorem adjacency_directional:
  "same_but self a b w (snd (link self a b w)) \<and>
   same_but self a b w (snd (unlink self a b w)) \<and>
   same_but self a b w (snd (linked self a b w)) \<and>
   (a \<noteq> b \<longrightarrow>
      fst (linked self b a (snd (link self a b w))) = fst (linked self b a w) \<and>
      fst (linked self b a (snd (unlink self a b w))) = fst (linked self b a w) \<and>
      fst (linked self b a (snd (linked self a b w))) = fst (linked self b a w))"
  using link_same_but [of self a b w] unlink_same_but [of self a b w]
    linked_same_but [of self a b w]
  by (simp add: same_but_linked_rev)

lemma ex_linked_rev: "fst (linked 0 2 (Suc 0) (ex_world DROP)) = Inr False"
  by (simp add: linked_eq linked_default_eq policy_default_def)

text \<open>
  On the example network under DROP, \<open>linked(2, 1)\<close> is false after \<open>link(1, 2)\<close> as
  it was before.
\<close>

theorem adjacency_directional_witness:
  "(1::nat) \<noteq> 2 \<and>
   fst (linked 0 2 1 (snd (link 0 1 2 (ex_world DROP)))) = Inr False \<and>
   fst (linked 0 2 1 (snd (unlink 0 1 2 (ex_world DROP)))) = Inr False"
  using adjacency_directional [of 0 1 2 "ex_world DROP"]
  by (simp add: ex_linked_rev)

text \<open>
  C4 as stated fails: with both interfaces attached, after \<open>link(1, 2)\<close> under DROP
  \<open>linked(1, 2)\<close> returns true and \<open>linked(2, 1)\<close> returns false.
\<close>

theorem adjacency_symmetric_counterexample:
  "attached (ex_world DROP) 0 1 \<and> attached (ex_world DROP) 0 2 \<and>
   fst (link 0 1 2 (ex_world DROP)) = Inr () \<and>
   fst (linked 0 1 2 (snd (link 0 1 2 (ex_world DROP)))) = Inr True \<and>
   fst (linked 0 2 1 (snd (link 0 1 2 (ex_world DROP)))) = Inr False"
proof -
  have s: "stored_or_default (ex_world DROP) 0 (Suc 0) 2 = Some False"
    by (simp add: stored_or_default_def policy_default_def)
  have l: "link 0 (Suc 0) 2 (ex_world DROP) =
      (Inr (), mark_dirty 0 ((store_linked 0 (Suc 0) 2 True (ex_world DROP))
         \<lparr>trace := trace (ex_world DROP) @ [Acquire (linked_lock 0), Release (linked_lock 0)]\<rparr>))"
    using link_eq [of "ex_world DROP" 0 "Suc 0" 2 False] s by simp
  have ab: "fst (linked 0 (Suc 0) 2 (snd (link 0 (Suc 0) 2 (ex_world DROP)))) = Inr True"
    by (simp add: l linked_eq entry_store_linked)
  have ba: "fst (linked 0 2 (Suc 0) (snd (link 0 (Suc 0) 2 (ex_world DROP)))) = Inr False"
    using same_but_linked_rev [OF link_same_but [of 0 "Suc 0" 2 "ex_world DROP"]]
    by (simp add: ex_linked_rev)
  show ?thesis
    using ab ba l by simp
qed

subsection \<open>Traffic shaping\<close>

lemma put_param_same: "params_dict (ifs w netif) k = v \<Longrightarrow> put_param netif k v w = w"
proof -
  assume a: "params_dict (ifs w netif) k = v"
  have "(params_dict (ifs w netif))(k := v) = params_dict (ifs w netif)"
    using a by (simp add: fun_upd_idem)
  then show ?thesis
    by (simp add: put_param_def)
qed

lemma setparam_eq:
  "setparam netif k v w = (Inr (params_dict (ifs w netif) k \<noteq> v), put_param netif k v w)"
proof (cases "params_dict (ifs w netif) k = v")
  case True
  then show ?thesis
    by (simp add: setparam_def ret_def put_param_same)
next
  case False
  then show ?thesis
    by (simp add: setparam_def ret_def seq_def bnd_def set_if_def modify_def put_param_def)
qed

lemma put_param_frame [simp]:
  "nets (put_param netif k v w) = nets w"
  "trace (put_param netif k v w) = trace w"
  "ebq (put_param netif k v w) = ebq w"
  "localname (ifs (put_param netif k v w) r) = localname (ifs w r)"
  "mtu (ifs (put_param netif k v w) r) = mtu (ifs w r)"
  "params_dict (ifs (put_param netif k v w) r) k' =
     (if r = netif \<and> k' = k then v else params_dict (ifs w r) k')"
  by (simp_all add: put_param_def)

lemma host_frame:
  "host E op w = (r, w') \<Longrightarrow> ifs w' = ifs w"
  by (auto simp: host_def)

lemma bnd_InrE:
  assumes "bnd m f w = (Inr y, w2)"
  obtains x w1 where "m w = (Inr x, w1)" and "f x w1 = (Inr y, w2)"
  using assms by (auto simp: bnd_def split: prod.splits sum.splits)

lemma linkconfig_tbf_keeps:
  assumes "linkconfig_tbf E self netif bw w = (r, w')"
    and "k \<noteq> ''has_tbf''" and "k \<noteq> ''has_netem''"
  shows "params_dict (ifs w' netif) k = params_dict (ifs w netif) k"
  using assms
  by (auto simp: linkconfig_tbf_def Let_def seq_def bnd_def ret_def throw_def setparam_eq
      host_def split: option.splits if_splits)

lemma linkconfig_netem_keeps:
  assumes "linkconfig_netem E self netif parent d j l dp w = (r, w')"
    and "k \<noteq> ''has_netem''"
  shows "params_dict (ifs w' netif) k = params_dict (ifs w netif) k"
  using assms
  by (auto simp: linkconfig_netem_def Let_def seq_def bnd_def ret_def setparam_eq
      host_def split: option.splits if_splits)


lemma linkconfig_fills_cache:
  assumes "linkconfig E self netif options w = (Inr (), w1)"
  shows "cache_matches w1 netif options"
proof -
  let ?P = "\<lambda>w k. params_dict (ifs w netif) k"
  from assms obtain c0 wa where
    a: "setparam netif ''bw'' (map_option PInt (bandwidth options)) w = (Inr c0, wa)" and
    ra: "bnd (if c0 then linkconfig_tbf E self netif (bandwidth options) else ret False)
       (\<lambda>changed0.
     bnd (getparam netif ''has_tbf'')
       (\<lambda>has_tbf.
     bnd (setparam netif ''delay'' (map_option PInt (delay options)))
       (\<lambda>changed1.
     bnd (setparam netif ''loss'' (map_option PFloat (per options)))
       (\<lambda>changed2.
     bnd (setparam netif ''duplicate'' (map_option PInt (dup options)))
       (\<lambda>changed3.
     bnd (setparam netif ''jitter'' (map_option PInt (jitter options)))
       (\<lambda>changed4.
     if \<not> (changed0 \<or> changed1 \<or> changed2 \<or> changed3 \<or> changed4) then ret ()
     else linkconfig_netem E self netif (if truthy has_tbf then ''parent 1:1'' else ''root'')
            (delay options) (jitter options) (per options) (dup options))))))) wa = (Inr (), w1)"
    unfolding linkconfig_def by (erule bnd_InrE)
  from ra obtain ch0 wb where
    b: "(if c0 then linkconfig_tbf E self netif (bandwidth options) else ret False) wa = (Inr ch0, wb)" and
    rb: "bnd (getparam netif ''has_tbf'')
       (\<lambda>has_tbf.
     bnd (setparam netif ''delay'' (map_option PInt (delay options)))
       (\<lambda>changed1.
     bnd (setparam netif ''loss'' (map_option PFloat (per options)))
       (\<lambda>changed2.
     bnd (setparam netif ''duplicate'' (map_option PInt (dup options)))
       (\<lambda>changed3.
     bnd (setparam netif ''jitter'' (map_option PInt (jitter options)))
       (\<lambda>changed4.
     if \<not> (ch0 \<or> changed1 \<or> changed2 \<or> changed3 \<or> changed4) then ret ()
     else linkconfig_netem E self netif (if truthy has_tbf then ''parent 1:1'' else ''root'')
            (delay options) (jitter options) (per options) (dup options)))))) wb = (Inr (), w1)"
    by (erule bnd_InrE)
  let ?wc = "put_param netif ''delay'' (map_option PInt (delay options)) wb"
  let ?wd = "put_param netif ''loss'' (map_option PFloat (per options)) ?wc"
  let ?we = "put_param netif ''duplicate'' (map_option PInt (dup options)) ?wd"
  let ?wf = "put_param netif ''jitter'' (map_option PInt (jitter options)) ?we"
  have f: "w1 = ?wf \<or> (\<exists>p. linkconfig_netem E self netif p
            (delay options) (jitter options) (per options) (dup options) ?wf = (Inr (), w1))"
    using rb by (auto simp: bnd_def getparam_def ret_def setparam_eq split: if_splits)
  have keep: "?P w1 k = ?P ?wf k" if "k \<noteq> ''has_netem''" for k
    using f that linkconfig_netem_keeps [of E self netif _ _ _ _ _ ?wf "Inr ()" w1 k]
    by blast
  have wa: "wa = put_param netif ''bw'' (map_option PInt (bandwidth options)) w"
    using a by (simp add: setparam_eq)
  have bw_b: "?P wb ''bw'' = ?P wa ''bw''"
    using b linkconfig_tbf_keeps [of E self netif _ wa "Inr ch0" wb "''bw''"]
    by (auto simp: ret_def split: if_splits)
  show ?thesis
    by (simp add: cache_matches_def keep bw_b wa)
qed

text \<open>
  C5. When the cache of the interface holds the requested bandwidth, delay, loss,
  duplicate and jitter, \<open>linkconfig\<close> returns normally and leaves the whole state as it
  was: no operation reaches the host and no parameter changes. After a call of
  \<open>linkconfig\<close> that returned normally the cache holds the options it was given, so the
  same call made again also changes nothing.
\<close>

theorem linkconfig_unchanged_no_command:
  "(cache_matches w netif options \<longrightarrow> linkconfig E self netif options w = (Inr (), w)) \<and>
   (linkconfig E self netif options w = (Inr (), w1) \<longrightarrow>
      linkconfig E self netif options w1 = (Inr (), w1))"
proof -
  have unchanged: "linkconfig E self netif options v = (Inr (), v)"
    if "cache_matches v netif options" for v
    using that
    by (simp add: linkconfig_def cache_matches_def bnd_def setparam_def getparam_def ret_def)
  show ?thesis
    using unchanged linkconfig_fills_cache by blast
qed

lemma ex_linkconfig_first:
  "fst (linkconfig ex_env 0 (Suc 0) ex_options (ex_world ACCEPT)) = Inr () \<and>
   length (host_ops (trace (snd (linkconfig ex_env 0 (Suc 0) ex_options (ex_world ACCEPT))))) = 2"
  by (simp add: linkconfig_def bnd_def seq_def ret_def setparam_eq getparam_def
      linkconfig_tbf_def linkconfig_netem_def le_zero_or_unset_def host_def ex_env_def
      ex_options_def ex_defs put_param_def Let_def netem_spec_def host_ops_def)

text \<open>
  The update of \<open>test_link_update\<close> on a fresh interface of a network that is up: the
  first call sends two commands to the host and fills the cache, the second changes
  nothing.
\<close>

theorem linkconfig_unchanged_no_command_witness:
  "fst (linkconfig ex_env 0 1 ex_options (ex_world ACCEPT)) = Inr () \<and>
   length (host_ops (trace (snd (linkconfig ex_env 0 1 ex_options (ex_world ACCEPT))))) = 2 \<and>
   cache_matches (snd (linkconfig ex_env 0 1 ex_options (ex_world ACCEPT))) 1 ex_options \<and>
   linkconfig ex_env 0 1 ex_options (snd (linkconfig ex_env 0 1 ex_options (ex_world ACCEPT))) =
     (Inr (), snd (linkconfig ex_env 0 1 ex_options (ex_world ACCEPT)))"
proof -
  let ?w1 = "snd (linkconfig ex_env 0 1 ex_options (ex_world ACCEPT))"
  have first: "linkconfig ex_env 0 1 ex_options (ex_world ACCEPT) = (Inr (), ?w1)"
    using ex_linkconfig_first by (simp add: prod_eq_iff)
  have cached: "cache_matches ?w1 1 ex_options"
    using first by (rule linkconfig_fills_cache)
  show ?thesis
    using linkconfig_unchanged_no_command [of "ex_world ACCEPT" 1 ex_options ex_env 0 ?w1]
      linkconfig_unchanged_no_command [of ?w1 1 ex_options ex_env 0 ?w1]
      ex_linkconfig_first first cached
    by simp
qed

subsection \<open>Attaching to a point-to-point network\<close>

lemma next_free_free: "next_free d i \<notin> fst ` set d"
proof (induction d i rule: next_free.induct)
  case (1 d i)
  show ?case
  proof (cases "i \<in> fst ` set d")
    case True
    with 1 show ?thesis by (simp add: next_free.simps [of d i])
  next
    case False
    then show ?thesis by (simp add: next_free.simps [of d i])
  qed
qed

lemma next_free_ge: "i \<le> next_free d i"
proof (induction d i rule: next_free.induct)
  case (1 d i)
  show ?case
  proof (cases "i \<in> fst ` set d")
    case True
    with 1 show ?thesis by (simp add: next_free.simps [of d i])
  next
    case False
    then show ?thesis by (simp add: next_free.simps [of d i])
  qed
qed

lemma update_new_key: "k \<notin> fst ` set d \<Longrightarrow> AList.update k v d = d @ [(k, v)]"
  by (induction d) auto

lemma update_next_free:
  "AList.update (next_free d i) v d = d @ [(next_free d i, v)]"
  by (rule update_new_key) (rule next_free_free)

lemma map_of_next_free [simp]: "map_of d (next_free d i) = None"
  using next_free_free [of d i] by (simp add: map_of_eq_None_iff)

lemma base_attach_eq:
  "base_attach self netif w =
     (if net (ifs w netif) \<noteq> None then (Inl Inconsistent, w)
      else (Inr (), attached_world self netif w))"
  by (simp add: base_attach_def newifindex_def bnd_def seq_def set_net_def set_if_def
      modify_def ret_def throw_def Let_def update_next_free attached_world_def)

lemma attached_world_facts:
  "attached (attached_world self netif w) self netif"
  "has_row (attached_world self netif w) self netif"
  "netif_dict (nets (attached_world self netif w) self) =
     netif_dict (nets w self) @
       [(next_free (netif_dict (nets w self)) (ifindex (nets w self)), netif)]"
  "trace (attached_world self netif w) = trace w"
  by (simp_all add: attached_world_def Let_def attached_def has_row_def update_conv'
      map_add_def)

lemma attached_world_trace [simp]:
  "attached_world self netif (w\<lparr>trace := t\<rparr>) = (attached_world self netif w)\<lparr>trace := t\<rparr>"
  by (simp add: attached_world_def Let_def)

lemma CoreNetwork_attach_eq:
  "CoreNetwork_attach E self netif w =
     (if up (nets w self) then
        (let op = set_interface_master (brname (nets w self)) (localname (ifs w netif));
             w1 = w\<lparr>trace := trace w @ [Host op]\<rparr>
         in if \<not> host_ok E (trace w) op then (Inl CoreCommandError, w1)
            else if net (ifs w netif) \<noteq> None then (Inl Inconsistent, w1)
            else (Inr (), (attached_world self netif w)\<lparr>trace := trace w @ [Host op]\<rparr>))
      else if net (ifs w netif) \<noteq> None then (Inl Inconsistent, w)
      else (Inr (), attached_world self netif w))"
  by (simp add: CoreNetwork_attach_def seq_def bnd_def host_def ret_def base_attach_eq Let_def)

lemma PtpNet_attach_ok:
  assumes "length (netif_dict (nets w self)) < 2" and "net (ifs w netif) = None"
    and "up (nets w self) \<longrightarrow> host_ok E (trace w)
           (set_interface_master (brname (nets w self)) (localname (ifs w netif)))"
  shows "PtpNet_attach E self netif w =
     (Inr (), (attached_world self netif w)\<lparr>trace :=
        if up (nets w self)
        then trace w @ [Host (set_interface_master (brname (nets w self))
                              (localname (ifs w netif)))]
        else trace w\<rparr>)"
  using assms
  by (simp add: PtpNet_attach_def CoreNetwork_attach_eq Let_def attached_world_facts)

text \<open>
  C6. On a point-to-point network whose interface map has two (or more) interfaces,
  \<open>attach\<close> raises the capacity \<open>ValueError\<close> and leaves the whole state, the interface
  map included, as it was. With fewer than two it is \<open>CoreNetwork.attach\<close>; and then,
  for an interface that belongs to no network and a host that accepts the bridge
  operation (asked only when the network is up), it returns normally with the interface
  added at the end of the interface map under the next free index, recorded under that
  index and with an adjacency row.
\<close>

theorem PtpNet_attach_capacity:
  "(2 \<le> length (netif_dict (nets w self)) \<longrightarrow>
      PtpNet_attach E self netif w =
        (Inl (ValueError ''Point-to-point links support at most 2 network interfaces''), w)) \<and>
   (length (netif_dict (nets w self)) < 2 \<longrightarrow>
      PtpNet_attach E self netif w = CoreNetwork_attach E self netif w) \<and>
   (length (netif_dict (nets w self)) < 2 \<and> net (ifs w netif) = None \<and>
    (up (nets w self) \<longrightarrow>
       host_ok E (trace w)
         (set_interface_master (brname (nets w self)) (localname (ifs w netif)))) \<longrightarrow>
      fst (PtpNet_attach E self netif w) = Inr () \<and>
      netif_dict (nets (snd (PtpNet_attach E self netif w)) self) =
        netif_dict (nets w self) @
          [(next_free (netif_dict (nets w self)) (ifindex (nets w self)), netif)] \<and>
      attached (snd (PtpNet_attach E self netif w)) self netif \<and>
      has_row (snd (PtpNet_attach E self netif w)) self netif)"
proof -
  let ?op = "set_interface_master (brname (nets w self)) (localname (ifs w netif))"
  let ?t = "if up (nets w self) then trace w @ [Host ?op] else trace w"
  have ok: "PtpNet_attach E self netif w = (Inr (), (attached_world self netif w)\<lparr>trace := ?t\<rparr>)"
    if "length (netif_dict (nets w self)) < 2" and "net (ifs w netif) = None"
      and "up (nets w self) \<longrightarrow> host_ok E (trace w) ?op"
    using that by (rule PtpNet_attach_ok)
  have full: "2 \<le> length (netif_dict (nets w self)) \<longrightarrow>
      PtpNet_attach E self netif w =
        (Inl (ValueError ''Point-to-point links support at most 2 network interfaces''), w)"
    by (simp add: PtpNet_attach_def throw_def)
  have deleg: "length (netif_dict (nets w self)) < 2 \<longrightarrow>
      PtpNet_attach E self netif w = CoreNetwork_attach E self netif w"
    by (simp add: PtpNet_attach_def)
  show ?thesis
    using full deleg by (auto simp: ok attached_world_facts)
qed

lemma ex_ptp_simps [simp]:
  "netif_dict (nets ex_ptp r) = []" "ifindex (nets ex_ptp r) = 0"
  "net (ifs ex_ptp i) = None" "up (nets ex_ptp r)" "brname (nets ex_ptp r) = ''b.3.1''"
  "localname (ifs ex_ptp i) = ''eth0''" "trace ex_ptp = []"
  by (simp_all add: ex_ptp_def ex_if_def)

lemma ex_env_host_ok [simp]: "host_ok ex_env t op"
  by (simp add: ex_env_def)

lemma ex_world_netif_dict [simp]: "netif_dict (nets (ex_world p) r) = [(0, 1), (1, 2)]"
  by (simp add: ex_world_def ex_net_def)

lemma ex_ptp_first:
  "PtpNet_attach ex_env 0 (Suc 0) ex_ptp =
     (Inr (), (attached_world 0 (Suc 0) ex_ptp)\<lparr>trace :=
        [Host (set_interface_master ''b.3.1'' ''eth0'')]\<rparr>)"
  by (simp add: PtpNet_attach_ok)

lemma ex_ptp_first_dict:
  "netif_dict (nets (attached_world 0 (Suc 0) ex_ptp) 0) = [(0, Suc 0)]"
  "net (ifs (attached_world 0 (Suc 0) ex_ptp) 2) = None"
  "up (nets (attached_world 0 (Suc 0) ex_ptp) 0)"
  "ifindex (nets (attached_world 0 (Suc 0) ex_ptp) 0) = 1"
  by (simp_all add: attached_world_def Let_def next_free.simps)

text \<open>
  On the empty point-to-point network the first and the second \<open>attach\<close> succeed and
  fill the indices 0 and 1; on a network with two interfaces a third \<open>attach\<close> fails and
  changes nothing.
\<close>

theorem PtpNet_attach_capacity_witness:
  "fst (PtpNet_attach ex_env 0 1 ex_ptp) = Inr () \<and>
   netif_dict (nets (snd (PtpNet_attach ex_env 0 1 ex_ptp)) 0) = [(0, 1)] \<and>
   fst (PtpNet_attach ex_env 0 2 (snd (PtpNet_attach ex_env 0 1 ex_ptp))) = Inr () \<and>
   netif_dict (nets (snd (PtpNet_attach ex_env 0 2 (snd (PtpNet_attach ex_env 0 1 ex_ptp)))) 0) =
     [(0, 1), (1, 2)] \<and>
   PtpNet_attach ex_env 0 3 (ex_world ACCEPT) =
     (Inl (ValueError ''Point-to-point links support at most 2 network interfaces''),
      ex_world ACCEPT)"
proof -
  let ?w1 = "snd (PtpNet_attach ex_env 0 1 ex_ptp)"
  let ?m = "\<lambda>w r. set_interface_master (brname (nets w 0)) (localname (ifs w r))"
  have w1: "?w1 = (attached_world 0 (Suc 0) ex_ptp)\<lparr>trace :=
        [Host (set_interface_master ''b.3.1'' ''eth0'')]\<rparr>"
    by (simp add: ex_ptp_first)
  have p1: "length (netif_dict (nets ex_ptp 0)) < 2 \<and> net (ifs ex_ptp 1) = None \<and>
      (up (nets ex_ptp 0) \<longrightarrow> host_ok ex_env (trace ex_ptp) (?m ex_ptp 1))"
    by simp
  from PtpNet_attach_capacity [of ex_ptp 0 ex_env 1] p1
  have c1: "fst (PtpNet_attach ex_env 0 1 ex_ptp) = Inr () \<and>
      netif_dict (nets ?w1 0) =
        netif_dict (nets ex_ptp 0) @
          [(next_free (netif_dict (nets ex_ptp 0)) (ifindex (nets ex_ptp 0)), 1)]"
    by blast
  have p2: "length (netif_dict (nets ?w1 0)) < 2 \<and> net (ifs ?w1 2) = None \<and>
      (up (nets ?w1 0) \<longrightarrow> host_ok ex_env (trace ?w1) (?m ?w1 2))"
    unfolding w1 by (simp add: ex_ptp_first_dict)
  from PtpNet_attach_capacity [of ?w1 0 ex_env 2] p2
  have c2: "fst (PtpNet_attach ex_env 0 2 ?w1) = Inr () \<and>
      netif_dict (nets (snd (PtpNet_attach ex_env 0 2 ?w1)) 0) =
        netif_dict (nets ?w1 0) @
          [(next_free (netif_dict (nets ?w1 0)) (ifindex (nets ?w1 0)), 2)]"
    by blast
  have p3: "2 \<le> length (netif_dict (nets (ex_world ACCEPT) 0))"
    by simp
  from PtpNet_attach_capacity [of "ex_world ACCEPT" 0 ex_env 3] p3
  have c3: "PtpNet_attach ex_env 0 3 (ex_world ACCEPT) =
     (Inl (ValueError ''Point-to-point links support at most 2 network interfaces''),
      ex_world ACCEPT)"
    by blast
  have n1: "netif_dict (nets ?w1 0) = [(0, 1)]" "ifindex (nets ?w1 0) = 1"
    unfolding w1 by (simp_all add: ex_ptp_first_dict)
  show ?thesis
    using c1 c2 c3 unfolding n1 by (simp add: next_free.simps)
qed

subsection \<open>Linking two bridges\<close>

lemma Veth_eq:
  "Veth E nm lnm start w =
     (if start \<and> \<not> host_ok E (trace w) (create_veth lnm nm)
      then (Inl CoreCommandError, (veth_world nm lnm False w)\<lparr>trace := trace w @ [Host (create_veth lnm nm)]\<rparr>)
      else (Inr (fresh w), veth_world nm lnm start w))"
  by (simp add: Veth_def veth_world_def Let_def seq_def bnd_def modify_def host_def ret_def
      set_if_def)

lemma veth_world_simps [simp]:
  "nets (veth_world nm lnm start w) = nets w"
  "net (ifs (veth_world nm lnm start w) (fresh w)) = None"
  "localname (ifs (veth_world nm lnm start w) (fresh w)) = lnm"
  "name (ifs (veth_world nm lnm start w) (fresh w)) = nm"
  "trace (veth_world nm lnm start w) =
     (if start then trace w @ [Host (create_veth lnm nm)] else trace w)"
  by (simp_all add: veth_world_def)

lemma attach_eq:
  "attach E self netif w =
     (if cls (nets w self) = PtpNet \<and> 2 \<le> length (netif_dict (nets w self))
      then (Inl (ValueError ''Point-to-point links support at most 2 network interfaces''), w)
      else CoreNetwork_attach E self netif w)"
  by (simp add: attach_def PtpNet_attach_def throw_def)

lemma peer_steps:
  "bnd (newifindex peer)
     (\<lambda>i. seq (set_net peer (\<lambda>n. n\<lparr>netif_dict := AList.update i netif (netif_dict n)\<rparr>))
        (seq (with_lock (linked_lock peer)
                (set_net peer (\<lambda>n. n\<lparr>linked_dict := AList.update netif [] (linked_dict n)\<rparr>)))
           (seq (set_if netif (\<lambda>f. f\<lparr>net := Some self, othernet := Some peer\<rparr>))
              (ret netif)))) w =
   (Inr netif, peer_world self peer netif w)"
  by (simp add: newifindex_def bnd_def seq_def set_net_def set_if_def modify_def ret_def
      with_lock_def Let_def update_next_free peer_world_def)


lemma trace_update_id: "trace v = t \<Longrightarrow> v\<lparr>trace := t\<rparr> = v"
  by auto

lemma linknet_success:
  assumes s: "session (nets w self) = Some sess"
    and r: "linknet E self peer w = (Inr netif, w')"
    and d: "self \<noteq> peer"
  shows "netif = fresh w \<and>
     length (veth_localname (nets w self) (nets w peer) (short_session_id sess)) < 16 \<and>
     length (veth_name (nets w self) (nets w peer) (short_session_id sess)) < 16 \<and>
     w' = peer_world self peer (fresh w)
       ((attached_world self (fresh w)
          (veth_world (veth_name (nets w self) (nets w peer) (short_session_id sess))
             (veth_localname (nets w self) (nets w peer) (short_session_id sess))
             (up (nets w self)) w))
        \<lparr>trace := trace w @ linknet_events w self peer
           (veth_name (nets w self) (nets w peer) (short_session_id sess))
           (veth_localname (nets w self) (nets w peer) (short_session_id sess))\<rparr>)"
proof -
  let ?lnm = "veth_localname (nets w self) (nets w peer) (short_session_id sess)"
  let ?nm = "veth_name (nets w self) (nets w peer) (short_session_id sess)"
  let ?w1 = "veth_world ?nm ?lnm (up (nets w self)) w"
  from r s have short: "length ?lnm < 16" "length ?nm < 16"
    by (auto simp: linknet_def Let_def throw_def split: if_splits)
  from r s short have r1: "bnd (Veth E ?nm ?lnm (up (nets w self)))
     (\<lambda>netif. seq (attach E self netif)
        (seq (\<lambda>w. if up (nets w peer) \<and> brname (nets w peer) \<noteq> []
                 then host E (set_interface_master (brname (nets w peer)) (name (ifs w netif))) w
                 else ret () w)
           (\<lambda>w. (Inr netif, peer_world self peer netif w)))) w = (Inr netif, w')"
    by (simp add: linknet_def Let_def peer_steps [abs_def])
  then obtain x wa where v: "Veth E ?nm ?lnm (up (nets w self)) w = (Inr x, wa)"
    and r2: "seq (attach E self x)
        (seq (\<lambda>w. if up (nets w peer) \<and> brname (nets w peer) \<noteq> []
                 then host E (set_interface_master (brname (nets w peer)) (name (ifs w x))) w
                 else ret () w)
           (\<lambda>w. (Inr x, peer_world self peer x w))) wa = (Inr netif, w')"
    by (erule bnd_InrE)
  from v have x: "x = fresh w" and wa: "wa = ?w1"
    by (auto simp: Veth_eq split: if_splits)
  from r2 obtain u wb where at: "attach E self x wa = (Inr u, wb)"
    and r3: "seq (\<lambda>w. if up (nets w peer) \<and> brname (nets w peer) \<noteq> []
                 then host E (set_interface_master (brname (nets w peer)) (name (ifs w x))) w
                 else ret () w)
           (\<lambda>w. (Inr x, peer_world self peer x w)) wb = (Inr netif, w')"
    unfolding seq_def by (erule bnd_InrE)
  from at have wb: "wb = (attached_world self (fresh w) ?w1)\<lparr>trace := trace w @
      (if up (nets w self)
       then [Host (create_veth ?lnm ?nm), Host (set_interface_master (brname (nets w self)) ?lnm)]
       else [])\<rparr>"
    unfolding x wa
    by (auto simp: attach_eq CoreNetwork_attach_eq Let_def trace_update_id
        attached_world_facts split: if_splits)
  have pn: "nets wb peer = nets w peer"
    using d unfolding wb by (simp add: attached_world_def Let_def)
  have nmx: "name (ifs wb x) = ?nm"
    unfolding wb x by (simp add: attached_world_def Let_def)
  from r3 have "netif = x \<and> w' = peer_world self peer x (wb\<lparr>trace := trace wb @
      (if up (nets w peer) \<and> brname (nets w peer) \<noteq> []
       then [Host (set_interface_master (brname (nets w peer)) ?nm)] else [])\<rparr>)"
    by (auto simp: seq_def bnd_def host_def ret_def pn nmx split: if_splits)
  then show ?thesis
    using short unfolding x wb by (simp add: linknet_events_def)
qed


lemma linknet_too_long:
  assumes "session (nets w self) = Some sess"
    and "lnm = veth_localname (nets w self) (nets w peer) (short_session_id sess)"
    and "nm = veth_name (nets w self) (nets w peer) (short_session_id sess)"
    and "16 \<le> length lnm \<or> 16 \<le> length nm"
  shows "linknet E self peer w =
     (Inl (ValueError (if 16 \<le> length lnm then ''interface local name '' @ lnm @ '' too long''
                       else ''interface name '' @ nm @ '' too long'')), w)"
  using assms by (auto simp: linknet_def Let_def throw_def)

lemma linknet_ok:
  assumes s: "session (nets w self) = Some sess"
    and "length (veth_localname (nets w self) (nets w peer) (short_session_id sess)) < 16"
    and "length (veth_name (nets w self) (nets w peer) (short_session_id sess)) < 16"
    and "\<not> (cls (nets w self) = PtpNet \<and> 2 \<le> length (netif_dict (nets w self)))"
    and "\<forall>t op. host_ok E t op"
  shows "fst (linknet E self peer w) = Inr (fresh w)"
proof -
  let ?lnm = "veth_localname (nets w self) (nets w peer) (short_session_id sess)"
  let ?nm = "veth_name (nets w self) (nets w peer) (short_session_id sess)"
  have main: "linknet E self peer w = bnd (Veth E ?nm ?lnm (up (nets w self)))
     (\<lambda>netif. seq (attach E self netif)
        (seq (\<lambda>w. if up (nets w peer) \<and> brname (nets w peer) \<noteq> []
                 then host E (set_interface_master (brname (nets w peer)) (name (ifs w netif))) w
                 else ret () w)
           (\<lambda>w. (Inr netif, peer_world self peer netif w)))) w"
    using assms(1-3) by (simp add: linknet_def Let_def peer_steps [abs_def])
  show ?thesis
    unfolding main using assms(4,5)
    by (simp add: bnd_def seq_def Veth_eq attach_eq CoreNetwork_attach_eq host_def ret_def
        Let_def)
qed

lemma peer_world_facts:
  "self \<noteq> peer \<Longrightarrow> nets (peer_world self peer netif v) self = nets v self"
  "netif_dict (nets (peer_world self peer netif v) peer) =
     netif_dict (nets v peer) @ [(next_free (netif_dict (nets v peer)) (ifindex (nets v peer)), netif)]"
  "map_of (linked_dict (nets (peer_world self peer netif v) peer)) netif = Some []"
  "net (ifs (peer_world self peer netif v) netif) = Some self"
  "othernet (ifs (peer_world self peer netif v) netif) = Some peer"
  "localname (ifs (peer_world self peer netif v) r) = localname (ifs v r)"
  "name (ifs (peer_world self peer netif v) r) = name (ifs v r)"
  "netifi (ifs (peer_world self peer netif v) r) = netifi (ifs v r)"
  "trace (peer_world self peer netif v) =
     trace v @ [Acquire (linked_lock peer), Release (linked_lock peer)]"
  by (simp_all add: peer_world_def Let_def update_conv')

lemma attached_world_more:
  "self \<noteq> peer \<Longrightarrow> nets (attached_world self netif v) peer = nets v peer"
  "r \<noteq> netif \<Longrightarrow> ifs (attached_world self netif v) r = ifs v r"
  "localname (ifs (attached_world self netif v) r) = localname (ifs v r)"
  "name (ifs (attached_world self netif v) r) = name (ifs v r)"
  by (simp_all add: attached_world_def Let_def)


lemma linknet_names:
  assumes "session (nets w self) = Some sess"
    and "lnm = veth_localname (nets w self) (nets w peer) (short_session_id sess)"
    and "nm = veth_name (nets w self) (nets w peer) (short_session_id sess)"
  shows
   "(16 \<le> length lnm \<or> 16 \<le> length nm \<longrightarrow>
       linknet E self peer w =
         (Inl (ValueError (if 16 \<le> length lnm then ''interface local name '' @ lnm @ '' too long''
                           else ''interface name '' @ nm @ '' too long'')), w)) \<and>
    (self \<noteq> peer \<and> linknet E self peer w = (Inr netif, w') \<longrightarrow>
       netif = fresh w \<and> length lnm < 16 \<and> length nm < 16 \<and>
       localname (ifs w' netif) = lnm \<and> name (ifs w' netif) = nm \<and>
       attached w' self netif \<and> has_row w' self netif \<and>
       new_events w w' =
         (if up (nets w self)
          then [Host (create_veth lnm nm), Host (set_interface_master (brname (nets w self)) lnm)]
          else []) @
         (if up (nets w peer) \<and> brname (nets w peer) \<noteq> []
          then [Host (set_interface_master (brname (nets w peer)) nm)] else []) @
         [Acquire (linked_lock peer), Release (linked_lock peer)] \<and>
       netif_dict (nets w' peer) =
         netif_dict (nets w peer) @
           [(next_free (netif_dict (nets w peer)) (ifindex (nets w peer)), netif)] \<and>
       map_of (linked_dict (nets w' peer)) netif = Some [] \<and>
       net (ifs w' netif) = Some self \<and> othernet (ifs w' netif) = Some peer) \<and>
    (length lnm < 16 \<and> length nm < 16 \<and>
     \<not> (cls (nets w self) = PtpNet \<and> 2 \<le> length (netif_dict (nets w self))) \<and>
     (\<forall>t op. host_ok E t op) \<longrightarrow>
       fst (linknet E self peer w) = Inr (fresh w))"
proof -
  have long: "16 \<le> length lnm \<or> 16 \<le> length nm \<longrightarrow>
       linknet E self peer w =
         (Inl (ValueError (if 16 \<le> length lnm then ''interface local name '' @ lnm @ '' too long''
                           else ''interface name '' @ nm @ '' too long'')), w)"
    using linknet_too_long [OF assms, of E] by blast
  have ok: "length lnm < 16 \<and> length nm < 16 \<and>
     \<not> (cls (nets w self) = PtpNet \<and> 2 \<le> length (netif_dict (nets w self))) \<and>
     (\<forall>t op. host_ok E t op) \<longrightarrow>
       fst (linknet E self peer w) = Inr (fresh w)"
    using linknet_ok [of w self sess peer E] assms by blast
  have succ: "netif = fresh w \<and> length lnm < 16 \<and> length nm < 16 \<and>
       localname (ifs w' netif) = lnm \<and> name (ifs w' netif) = nm \<and>
       attached w' self netif \<and> has_row w' self netif \<and>
       new_events w w' =
         (if up (nets w self)
          then [Host (create_veth lnm nm), Host (set_interface_master (brname (nets w self)) lnm)]
          else []) @
         (if up (nets w peer) \<and> brname (nets w peer) \<noteq> []
          then [Host (set_interface_master (brname (nets w peer)) nm)] else []) @
         [Acquire (linked_lock peer), Release (linked_lock peer)] \<and>
       netif_dict (nets w' peer) =
         netif_dict (nets w peer) @
           [(next_free (netif_dict (nets w peer)) (ifindex (nets w peer)), netif)] \<and>
       map_of (linked_dict (nets w' peer)) netif = Some [] \<and>
       net (ifs w' netif) = Some self \<and> othernet (ifs w' netif) = Some peer"
    if d: "self \<noteq> peer" and r: "linknet E self peer w = (Inr netif, w')"
  proof -
    let ?v = "veth_world nm lnm (up (nets w self)) w"
    let ?a = "(attached_world self (fresh w) ?v)\<lparr>trace := trace w @ linknet_events w self peer nm lnm\<rparr>"
    from linknet_success [OF assms(1) r d]
    have n: "netif = fresh w" and short: "length lnm < 16" "length nm < 16"
      and w': "w' = peer_world self peer (fresh w) ?a"
      unfolding assms(2,3) by simp_all
    have at: "attached ?a self (fresh w)" "has_row ?a self (fresh w)"
      by (simp_all add: attached_world_facts)
    have at': "attached w' self (fresh w)" "has_row w' self (fresh w)"
      using at d unfolding w'
      by (simp_all add: attached_def has_row_def peer_world_facts cong: option.case_cong)
    have names: "localname (ifs w' (fresh w)) = lnm" "name (ifs w' (fresh w)) = nm"
      unfolding w' by (simp_all add: peer_world_facts attached_world_more)
    have ev: "new_events w w' = linknet_events w self peer nm lnm @
        [Acquire (linked_lock peer), Release (linked_lock peer)]"
      unfolding w' by (simp add: new_events_def peer_world_facts)
    have pd: "netif_dict (nets w' peer) =
         netif_dict (nets w peer) @
           [(next_free (netif_dict (nets w peer)) (ifindex (nets w peer)), fresh w)]"
      "map_of (linked_dict (nets w' peer)) (fresh w) = Some []"
      "net (ifs w' (fresh w)) = Some self" "othernet (ifs w' (fresh w)) = Some peer"
      using d unfolding w' by (simp_all add: peer_world_facts attached_world_more)
    show ?thesis
      using short at' names pd unfolding n ev by (simp add: linknet_events_def)
  qed
  show ?thesis
    using long ok succ by blast
qed



lemma hex_digit_digit_char: "d < 16 \<Longrightarrow> hex_digit (digit_char d) = Some d"
proof -
  have "\<forall>d \<in> set [0..<16]. hex_digit (digit_char d) = Some d"
    by (simp add: upt_rec hex_digit_def digit_char_def)
  then show "d < 16 \<Longrightarrow> hex_digit (digit_char d) = Some d"
    by simp
qed

lemma hex_digit_Some: "hex_digit c = Some d \<Longrightarrow> d < 16 \<and> digit_char d = c"
  unfolding hex_digit_def
  by (drule map_of_SomeD) (auto simp: digit_char_def)

lemma hex_value_snoc:
  "hex_value acc (xs @ [c]) =
     (case hex_value acc xs of
        None \<Rightarrow> None
      | Some v \<Rightarrow> (case hex_digit c of None \<Rightarrow> None | Some d \<Rightarrow> Some (16 * v + d)))"
  by (induction xs arbitrary: acc) (simp_all split: option.splits)

lemma hex_value_hex_nat: "hex_value 0 (hex_nat n) = Some n"
proof (induction n rule: hex_nat.induct)
  case (1 n)
  show ?case
  proof (cases "n < 16")
    case True
    then show ?thesis
      by (simp add: hex_nat.simps [of n] hex_digit_digit_char)
  next
    case False
    then show ?thesis
      using 1 by (simp add: hex_nat.simps [of n] hex_value_snoc hex_digit_digit_char)
  qed
qed

lemma hex_nat_not_Nil [simp]: "hex_nat n \<noteq> []"
  by (simp add: hex_nat.simps [of n])

lemma hd_hex_nat: "hd (hex_nat n) = CHR ''0'' \<Longrightarrow> n = 0"
proof (induction n rule: hex_nat.induct)
  case (1 n)
  show ?case
  proof (cases "n < 16")
    case True
    with 1(2) have "hex_digit (digit_char n) = hex_digit CHR ''0''"
      by (simp add: hex_nat.simps [of n])
    then show ?thesis
      using True by (simp add: hex_digit_digit_char) (simp add: hex_digit_def)
  next
    case False
    with 1(2) have "hd (hex_nat (n div 16)) = CHR ''0''"
      by (simp add: hex_nat.simps [of n])
    with 1(1) False have "n div 16 = 0"
      by simp
    with False show ?thesis
      by simp
  qed
qed

lemma hex_nat_0: "hex_nat 0 = ''0''"
  by (simp add: hex_nat.simps digit_char_def)

lemma hex_numeral_nat_hex_nat: "hex_numeral_nat n (hex_nat n)"
  using hd_hex_nat [of n] by (auto simp: hex_numeral_nat_def hex_value_hex_nat hex_nat_0)

lemma hex_numeral_nat_unique:
  "s \<noteq> [] \<Longrightarrow> (hd s = CHR ''0'' \<longrightarrow> s = ''0'') \<Longrightarrow> hex_value 0 s = Some n \<Longrightarrow> hex_nat n = s"
proof (induction s arbitrary: n rule: rev_induct)
  case Nil
  then show ?case by simp
next
  case (snoc c xs)
  from snoc.prems(3) obtain v d where v: "hex_value 0 xs = Some v"
    and d: "hex_digit c = Some d" and n: "n = 16 * v + d"
    by (auto simp: hex_value_snoc split: option.splits)
  from d have d16: "d < 16" and dc: "digit_char d = c"
    using hex_digit_Some by blast+
  show ?case
  proof (cases "xs = []")
    case True
    with v have "v = 0" by simp
    with n d16 dc True show ?thesis
      by (simp add: hex_nat.simps [of d])
  next
    case False
    with snoc.prems(2) have nz: "hd xs \<noteq> CHR ''0''"
      by auto
    with False v have x: "hex_nat v = xs"
      using snoc.IH [of v] by simp
    have "v \<noteq> 0"
    proof
      assume "v = 0"
      with x have "xs = ''0''" by (simp add: hex_nat_0)
      with nz show False by simp
    qed
    with n d16 have "\<not> n < 16" "n div 16 = v" "n mod 16 = d"
      by simp_all
    then show ?thesis
      using x dc by (simp add: hex_nat.simps [of n])
  qed
qed

lemma hex_numeral_nat_iff: "hex_numeral_nat n s = (s = hex_nat n)"
proof
  assume "hex_numeral_nat n s"
  then have a: "s \<noteq> []" "hd s = CHR ''0'' \<longrightarrow> s = ''0''" "hex_value 0 s = Some n"
    unfolding hex_numeral_nat_def by blast+
  from hex_numeral_nat_unique [OF a] show "s = hex_nat n"
    by (rule sym)
next
  assume "s = hex_nat n"
  then show "hex_numeral_nat n s"
    by (simp only: hex_numeral_nat_hex_nat)
qed

lemma hex_numeral_iff: "hex_numeral i s = (s = hex_int i)"
proof (cases "i < 0")
  case True
  then have h: "hex_int i = CHR ''-'' # hex_nat (nat (- i))"
    by (simp add: hex_int_def)
  show ?thesis
  proof (cases s)
    case Nil
    then show ?thesis
      unfolding h hex_numeral_def using True by simp
  next
    case (Cons c cs)
    then show ?thesis
      unfolding h hex_numeral_def hex_numeral_nat_iff using True by simp
  qed
next
  case False
  then have h: "hex_int i = hex_nat (nat i)"
    by (simp add: hex_int_def)
  show ?thesis
    unfolding h hex_numeral_def hex_numeral_nat_iff using False by simp
qed

text \<open>
  C8. Let a and b be the hexadecimal numerals of this network's id and of the peer's id,
  \<open>lnm\<close> the text veth, a, a dot, b, a dot and the short session id, and \<open>nm\<close> the same
  with a and b swapped. When \<open>lnm\<close> has 16 characters or more \<open>linknet\<close> raises
  \<open>ValueError\<close> with "interface local name \<open>lnm\<close> too long", otherwise when \<open>nm\<close> has
  16 or more it raises it with "interface name \<open>nm\<close> too long"; the state is as before,
  so no interface object was made and none attached. When \<open>linknet\<close> returns, for a peer
  other than this network, it returns the new interface, whose local name is \<open>lnm\<close> and
  whose name is \<open>nm\<close>; the interface is attached to this network; the host was asked, in
  this order, to create the pair and put \<open>lnm\<close> into this bridge (both only when this
  network is up), and to put \<open>nm\<close> into the peer's bridge exactly when the peer is up and
  has a bridge name; the interface stands in the peer's interface map under the peer's
  next free index, with an empty adjacency row, and refers to this network as \<open>net\<close>
  and to the peer as \<open>othernet\<close>. And \<open>linknet\<close> does return when the names are short,
  the host accepts every operation and this network is not a full point-to-point
  network.
\<close>

theorem linknet_veth_pair:
  assumes "session (nets w self) = Some sess"
    and "hex_numeral (net_id (nets w self)) a"
    and "hex_numeral (net_id (nets w peer)) b"
    and "lnm = ''veth'' @ a @ ''.'' @ b @ ''.'' @ short_session_id sess"
    and "nm = ''veth'' @ b @ ''.'' @ a @ ''.'' @ short_session_id sess"
  shows
   "(16 \<le> length lnm \<or> 16 \<le> length nm \<longrightarrow>
       linknet E self peer w =
         (Inl (ValueError (if 16 \<le> length lnm then ''interface local name '' @ lnm @ '' too long''
                           else ''interface name '' @ nm @ '' too long'')), w)) \<and>
    (self \<noteq> peer \<and> linknet E self peer w = (Inr netif, w') \<longrightarrow>
       netif = fresh w \<and> length lnm < 16 \<and> length nm < 16 \<and>
       localname (ifs w' netif) = lnm \<and> name (ifs w' netif) = nm \<and>
       attached w' self netif \<and> has_row w' self netif \<and>
       new_events w w' =
         (if up (nets w self)
          then [Host (create_veth lnm nm), Host (set_interface_master (brname (nets w self)) lnm)]
          else []) @
         (if up (nets w peer) \<and> brname (nets w peer) \<noteq> []
          then [Host (set_interface_master (brname (nets w peer)) nm)] else []) @
         [Acquire (linked_lock peer), Release (linked_lock peer)] \<and>
       netif_dict (nets w' peer) =
         netif_dict (nets w peer) @
           [(next_free (netif_dict (nets w peer)) (ifindex (nets w peer)), netif)] \<and>
       map_of (linked_dict (nets w' peer)) netif = Some [] \<and>
       net (ifs w' netif) = Some self \<and> othernet (ifs w' netif) = Some peer) \<and>
    (length lnm < 16 \<and> length nm < 16 \<and>
     \<not> (cls (nets w self) = PtpNet \<and> 2 \<le> length (netif_dict (nets w self))) \<and>
     (\<forall>t op. host_ok E t op) \<longrightarrow>
       fst (linknet E self peer w) = Inr (fresh w))"
proof -
  from assms(2,3) have ab: "a = hex_int (net_id (nets w self))" "b = hex_int (net_id (nets w peer))"
    by (simp_all only: hex_numeral_iff)
  have l: "lnm = veth_localname (nets w self) (nets w peer) (short_session_id sess)"
    unfolding assms(4) ab veth_localname_def by (rule refl)
  have n: "nm = veth_name (nets w self) (nets w peer) (short_session_id sess)"
    unfolding assms(5) ab veth_name_def by (rule refl)
  show ?thesis
    by (rule linknet_names [OF assms(1) l n])
qed

lemma ex_two_simps [simp]:
  "session (nets (ex_two i j) r) = Some ex_session"
  "net_id (nets (ex_two i j) 0) = i" "net_id (nets (ex_two i j) (Suc 0)) = j"
  "up (nets (ex_two i j) r)" "cls (nets (ex_two i j) r) = SwitchNode"
  "brname (nets (ex_two i j) 0) = ''b.'' @ str_int i @ ''.1''"
  "brname (nets (ex_two i j) (Suc 0)) = ''b.'' @ str_int j @ ''.1''"
  "netif_dict (nets (ex_two i j) r) = []" "ifindex (nets (ex_two i j) r) = 0"
  "fresh (ex_two i j) = 10" "short_session_id ex_session = ''1''"
  by (simp_all add: ex_two_def ex_switch_def ex_session_def)

lemma ex_str_int: "str_int 1 = ''1''" "str_int 2 = ''2''"
  by (simp_all add: str_int_def str_nat.simps digit_char_def)

lemma ex_hex_numerals:
  "hex_numeral 1 ''1''" "hex_numeral 2 ''2''"
  "hex_numeral 43981 ''abcd''" "hex_numeral 4660 ''1234''"
  "hex_numeral 305419896 ''12345678''" "hex_numeral 2596069104 ''9abcdef0''"
  by (simp_all add: hex_numeral_def hex_numeral_nat_def hex_digit_def)

text \<open>
  Linking switch 1 to switch 2 in session 1 makes \<open>veth1.2.1\<close> and \<open>veth2.1.1\<close>;
  linking the switches 43981 (\<open>0xabcd\<close>) and 4660 (\<open>0x1234\<close>) makes \<open>vethabcd.1234.1\<close>
  and \<open>veth1234.abcd.1\<close>, of 15 characters each; with the ids \<open>0x12345678\<close> and
  \<open>0x9abcdef0\<close> the local name has 23 characters and \<open>linknet\<close> fails without a trace.
\<close>

theorem linknet_veth_pair_witness:
  "fst (linknet ex_env 0 1 (ex_two 1 2)) = Inr 10 \<and>
   localname (ifs (snd (linknet ex_env 0 1 (ex_two 1 2))) 10) = ''veth1.2.1'' \<and>
   name (ifs (snd (linknet ex_env 0 1 (ex_two 1 2))) 10) = ''veth2.1.1'' \<and>
   new_events (ex_two 1 2) (snd (linknet ex_env 0 1 (ex_two 1 2))) =
     [Host (create_veth ''veth1.2.1'' ''veth2.1.1''),
      Host (set_interface_master ''b.1.1'' ''veth1.2.1''),
      Host (set_interface_master ''b.2.1'' ''veth2.1.1''),
      Acquire (linked_lock 1), Release (linked_lock 1)] \<and>
   netif_dict (nets (snd (linknet ex_env 0 1 (ex_two 1 2))) 1) = [(0, 10)] \<and>
   net (ifs (snd (linknet ex_env 0 1 (ex_two 1 2))) 10) = Some 0 \<and>
   othernet (ifs (snd (linknet ex_env 0 1 (ex_two 1 2))) 10) = Some 1 \<and>
   fst (linknet ex_env 0 1 (ex_two 43981 4660)) = Inr 10 \<and>
   localname (ifs (snd (linknet ex_env 0 1 (ex_two 43981 4660))) 10) = ''vethabcd.1234.1'' \<and>
   name (ifs (snd (linknet ex_env 0 1 (ex_two 43981 4660))) 10) = ''veth1234.abcd.1'' \<and>
   linknet ex_env 0 1 (ex_two 305419896 2596069104) =
     (Inl (ValueError ''interface local name veth12345678.9abcdef0.1 too long''),
      ex_two 305419896 2596069104)"
proof -
  have ok: "\<forall>t op. host_ok ex_env t op"
    by (simp add: ex_env_def)
  let ?w = "ex_two 1 2"
  let ?w' = "snd (linknet ex_env 0 1 ?w)"
  have s: "session (nets ?w 0) = Some ex_session"
    by simp
  have h: "hex_numeral (net_id (nets ?w 0)) ''1''" "hex_numeral (net_id (nets ?w 1)) ''2''"
    by (simp_all add: ex_hex_numerals)
  have l: "''veth1.2.1'' = ''veth'' @ ''1'' @ ''.'' @ ''2'' @ ''.'' @ short_session_id ex_session"
    "''veth2.1.1'' = ''veth'' @ ''2'' @ ''.'' @ ''1'' @ ''.'' @ short_session_id ex_session"
    by simp_all
  note t = linknet_veth_pair [where E = ex_env and netif = 10 and w' = ?w', OF s h l]
  have f: "fst (linknet ex_env 0 1 ?w) = Inr 10"
    using t ok by simp
  then have r: "linknet ex_env 0 1 ?w = (Inr 10, ?w')"
    by (simp add: prod_eq_iff)
  have small: "localname (ifs ?w' 10) = ''veth1.2.1'' \<and> name (ifs ?w' 10) = ''veth2.1.1'' \<and>
     new_events ?w ?w' =
       [Host (create_veth ''veth1.2.1'' ''veth2.1.1''),
        Host (set_interface_master ''b.1.1'' ''veth1.2.1''),
        Host (set_interface_master ''b.2.1'' ''veth2.1.1''),
        Acquire (linked_lock 1), Release (linked_lock 1)] \<and>
     netif_dict (nets ?w' 1) = [(0, 10)] \<and>
     net (ifs ?w' 10) = Some 0 \<and> othernet (ifs ?w' 10) = Some 1"
    using t r by (simp add: next_free.simps ex_str_int)
  let ?v = "ex_two 43981 4660"
  let ?v' = "snd (linknet ex_env 0 1 ?v)"
  have sv: "session (nets ?v 0) = Some ex_session"
    by simp
  have hv: "hex_numeral (net_id (nets ?v 0)) ''abcd''" "hex_numeral (net_id (nets ?v 1)) ''1234''"
    by (simp_all add: ex_hex_numerals)
  have lv: "''vethabcd.1234.1'' =
      ''veth'' @ ''abcd'' @ ''.'' @ ''1234'' @ ''.'' @ short_session_id ex_session"
    "''veth1234.abcd.1'' =
      ''veth'' @ ''1234'' @ ''.'' @ ''abcd'' @ ''.'' @ short_session_id ex_session"
    by simp_all
  note tv = linknet_veth_pair [where E = ex_env and netif = 10 and w' = ?v', OF sv hv lv]
  have fv: "fst (linknet ex_env 0 1 ?v) = Inr 10"
    using tv ok by simp
  then have rv: "linknet ex_env 0 1 ?v = (Inr 10, ?v')"
    by (simp add: prod_eq_iff)
  have hexa: "localname (ifs ?v' 10) = ''vethabcd.1234.1'' \<and>
     name (ifs ?v' 10) = ''veth1234.abcd.1''"
    using tv rv by simp
  let ?b = "ex_two 305419896 2596069104"
  have sb: "session (nets ?b 0) = Some ex_session"
    by simp
  have hb: "hex_numeral (net_id (nets ?b 0)) ''12345678''"
    "hex_numeral (net_id (nets ?b 1)) ''9abcdef0''"
    by (simp_all add: ex_hex_numerals)
  have lb: "''veth12345678.9abcdef0.1'' =
      ''veth'' @ ''12345678'' @ ''.'' @ ''9abcdef0'' @ ''.'' @ short_session_id ex_session"
    "''veth9abcdef0.12345678.1'' =
      ''veth'' @ ''9abcdef0'' @ ''.'' @ ''12345678'' @ ''.'' @ short_session_id ex_session"
    by simp_all
  have big: "linknet ex_env 0 1 ?b =
      (Inl (ValueError ''interface local name veth12345678.9abcdef0.1 too long''), ?b)"
    using linknet_veth_pair [where E = ex_env and netif = 10 and w' = ?b, OF sb hb lb] by simp
  show ?thesis
    using f small fv hexa big by simp
qed

subsection \<open>Link records of a point-to-point network\<close>

lemma scan_addrlist_readable:
  "masks_readable E addrs \<Longrightarrow> \<exists>r. scan_addrlist E addrs acc = Inr r"
proof (induction addrs arbitrary: acc)
  case Nil
  show ?case by (cases acc) simp
next
  case (Cons a addrs)
  obtain ip4 m4 ip6 m6 where acc: "acc = (ip4, m4, ip6, m6)"
    by (cases acc) auto
  from Cons.prems obtain m where m: "py_int E (partition_mask a) = Some m"
    and rest: "masks_readable E addrs"
    by (auto simp: masks_readable_def)
  show ?case
    using Cons.IH [OF rest] by (simp add: acc m)
qed

lemma all_link_data_not_two:
  "length (netif_dict (nets w self)) \<noteq> 2 \<Longrightarrow>
     PtpNet_all_link_data E self flags w = (Inr [], w)"
  by (auto simp: PtpNet_all_link_data_def ret_def split: list.splits)

lemma all_link_data_two:
  assumes d: "netif_dict (nets w self) = [(i1, r1), (i2, r2)]"
    and n1: "node (ifs w r1) = Some n1" and n2: "node (ifs w r2) = Some n2"
    and a1: "scan_addrlist E (addrlist (ifs w r1)) (None, None, None, None) = Inr a1"
    and a2: "scan_addrlist E (addrlist (ifs w r2)) (None, None, None, None) = Inr a2"
  shows "PtpNet_all_link_data E self flags w =
     (Inr (ptp_link_data E flags (linktype (nets w self))
             (if getparams_differ (ifs w r1) (ifs w r2) then 1 else 0)
             r1 (ifs w r1) n1 r2 (ifs w r2) n2 a1 a2 #
           (if getparams_differ (ifs w r1) (ifs w r2)
            then [ptp_link_data_back E (linktype (nets w self)) r1 (ifs w r1) n1 r2 (ifs w r2) n2]
            else [])), w)"
  by (simp add: PtpNet_all_link_data_def d n1 n2 a1 a2 Let_def bnd_def lift_def node_of_def
      ret_def)

text \<open>
  C7. \<open>all_link_data\<close> of a point-to-point network returns the empty list, and changes
  nothing, unless the interface map has exactly two interfaces. With exactly two, each
  belonging to a node and each address carrying a mask that \<open>int()\<close> reads, it returns
  one record whose ends are the two nodes and their interfaces in the order of the map,
  followed by a second record with the ends swapped exactly when the parameter caches
  of the two interfaces differ; the first record's unidirectional flag is 1 in that case
  and 0 otherwise, and the second record's is 1.
\<close>

theorem PtpNet_all_link_data_records:
  "(length (netif_dict (nets w self)) \<noteq> 2 \<longrightarrow>
      PtpNet_all_link_data E self flags w = (Inr [], w)) \<and>
   (netif_dict (nets w self) = [(i1, r1), (i2, r2)] \<and>
    node (ifs w r1) = Some n1 \<and> node (ifs w r2) = Some n2 \<and>
    masks_readable E (addrlist (ifs w r1)) \<and> masks_readable E (addrlist (ifs w r2)) \<longrightarrow>
      (\<exists>l1 l2.
         PtpNet_all_link_data E self flags w =
           (Inr (if getparams_differ (ifs w r1) (ifs w r2) then [l1, l2] else [l1]), w) \<and>
         node1_id l1 = Some (node_id n1) \<and> node2_id l1 = Some (node_id n2) \<and>
         interface1_id l1 = Some (getifindex E n1 r1) \<and>
         interface2_id l1 = Some (getifindex E n2 r2) \<and>
         unidirectional l1 = Some (if getparams_differ (ifs w r1) (ifs w r2) then 1 else 0) \<and>
         node1_id l2 = Some (node_id n2) \<and> node2_id l2 = Some (node_id n1) \<and>
         interface1_id l2 = Some (getifindex E n2 r2) \<and>
         interface2_id l2 = Some (getifindex E n1 r1) \<and>
         unidirectional l2 = Some 1))"
proof -
  have two: "\<exists>l1 l2.
         PtpNet_all_link_data E self flags w =
           (Inr (if getparams_differ (ifs w r1) (ifs w r2) then [l1, l2] else [l1]), w) \<and>
         node1_id l1 = Some (node_id n1) \<and> node2_id l1 = Some (node_id n2) \<and>
         interface1_id l1 = Some (getifindex E n1 r1) \<and>
         interface2_id l1 = Some (getifindex E n2 r2) \<and>
         unidirectional l1 = Some (if getparams_differ (ifs w r1) (ifs w r2) then 1 else 0) \<and>
         node1_id l2 = Some (node_id n2) \<and> node2_id l2 = Some (node_id n1) \<and>
         interface1_id l2 = Some (getifindex E n2 r2) \<and>
         interface2_id l2 = Some (getifindex E n1 r1) \<and>
         unidirectional l2 = Some 1"
    if d: "netif_dict (nets w self) = [(i1, r1), (i2, r2)]"
      and n: "node (ifs w r1) = Some n1" "node (ifs w r2) = Some n2"
      and m: "masks_readable E (addrlist (ifs w r1))" "masks_readable E (addrlist (ifs w r2))"
  proof -
    from scan_addrlist_readable [OF m(1)] obtain a1 where
      a1: "scan_addrlist E (addrlist (ifs w r1)) (None, None, None, None) = Inr a1" by blast
    from scan_addrlist_readable [OF m(2)] obtain a2 where
      a2: "scan_addrlist E (addrlist (ifs w r2)) (None, None, None, None) = Inr a2" by blast
    let ?l1 = "ptp_link_data E flags (linktype (nets w self))
             (if getparams_differ (ifs w r1) (ifs w r2) then 1 else 0)
             r1 (ifs w r1) n1 r2 (ifs w r2) n2 a1 a2"
    let ?l2 = "ptp_link_data_back E (linktype (nets w self)) r1 (ifs w r1) n1 r2 (ifs w r2) n2"
    have "PtpNet_all_link_data E self flags w =
           (Inr (if getparams_differ (ifs w r1) (ifs w r2) then [?l1, ?l2] else [?l1]), w)"
      by (simp add: all_link_data_two [OF d n a1 a2])
    moreover have "node1_id ?l1 = Some (node_id n1) \<and> node2_id ?l1 = Some (node_id n2) \<and>
         interface1_id ?l1 = Some (getifindex E n1 r1) \<and>
         interface2_id ?l1 = Some (getifindex E n2 r2) \<and>
         unidirectional ?l1 = Some (if getparams_differ (ifs w r1) (ifs w r2) then 1 else 0)"
      by (simp add: ptp_link_data_def)
    moreover have "node1_id ?l2 = Some (node_id n2) \<and> node2_id ?l2 = Some (node_id n1) \<and>
         interface1_id ?l2 = Some (getifindex E n2 r2) \<and>
         interface2_id ?l2 = Some (getifindex E n1 r1) \<and>
         unidirectional ?l2 = Some 1"
      by (simp add: ptp_link_data_back_def)
    ultimately show ?thesis by blast
  qed
  show ?thesis
    using all_link_data_not_two [of w self E flags] two by blast
qed


lemma ex_ptp_pair_simps:
  "netif_dict (nets (ex_ptp_pair p) 0) = [(0, 1), (1, 2)]"
  "node (ifs (ex_ptp_pair p) 1) = Some \<lparr>node_id = 1\<rparr>"
  "node (ifs (ex_ptp_pair p) 2) = Some \<lparr>node_id = 2\<rparr>"
  "masks_readable ex_env (addrlist (ifs (ex_ptp_pair p) 1))"
  "masks_readable ex_env (addrlist (ifs (ex_ptp_pair p) 2))"
  "getparams_differ (ifs (ex_ptp_pair p) 1) (ifs (ex_ptp_pair p) 2) = ((\<lambda>k. None) \<noteq> p)"
  by (simp_all add: ex_ptp_pair_def ex_node_if_def masks_readable_def partition_mask_def
      partition_ip_def ex_env_def getparams_differ_def)

lemma ex_params_differ: "(\<lambda>k. None) \<noteq> (\<lambda>k. None)(''delay'' \<mapsto> PInt 50)"
  by (metis fun_upd_same option.distinct(1))

text \<open>
  No record for the empty network; one record, not unidirectional, for the link of
  \<open>test_ptp\<close>; and two records, both unidirectional, once the second interface alone has
  a delay cached.
\<close>

theorem PtpNet_all_link_data_records_witness:
  "PtpNet_all_link_data ex_env 0 0 ex_ptp = (Inr [], ex_ptp) \<and>
   (\<exists>l1. PtpNet_all_link_data ex_env 0 0 (ex_ptp_pair (\<lambda>k. None)) =
           (Inr [l1], ex_ptp_pair (\<lambda>k. None)) \<and>
         node1_id l1 = Some 1 \<and> node2_id l1 = Some 2 \<and> unidirectional l1 = Some 0) \<and>
   (\<exists>l1 l2. PtpNet_all_link_data ex_env 0 0 (ex_ptp_pair ((\<lambda>k. None)(''delay'' \<mapsto> PInt 50))) =
           (Inr [l1, l2], ex_ptp_pair ((\<lambda>k. None)(''delay'' \<mapsto> PInt 50))) \<and>
         node1_id l1 = Some 1 \<and> node2_id l1 = Some 2 \<and> unidirectional l1 = Some 1 \<and>
         node1_id l2 = Some 2 \<and> node2_id l2 = Some 1 \<and> unidirectional l2 = Some 1)"
proof -
  have none: "PtpNet_all_link_data ex_env 0 0 ex_ptp = (Inr [], ex_ptp)"
    using PtpNet_all_link_data_records [where w = ex_ptp and self = 0 and E = ex_env
        and flags = 0]
    by (simp add: ex_ptp_def)
  have pair: "\<exists>l1 l2.
         PtpNet_all_link_data ex_env 0 0 (ex_ptp_pair p) =
           (Inr (if (\<lambda>k. None) \<noteq> p then [l1, l2] else [l1]), ex_ptp_pair p) \<and>
         node1_id l1 = Some 1 \<and> node2_id l1 = Some 2 \<and>
         unidirectional l1 = Some (if (\<lambda>k. None) \<noteq> p then 1 else 0) \<and>
         node1_id l2 = Some 2 \<and> node2_id l2 = Some 1 \<and> unidirectional l2 = Some 1" for p
  proof -
    note s = ex_ptp_pair_simps [of p]
    from PtpNet_all_link_data_records [where w = "ex_ptp_pair p" and self = 0 and E = ex_env
        and flags = 0 and ?i1.0 = 0 and ?r1.0 = 1 and ?i2.0 = 1 and ?r2.0 = 2
        and ?n1.0 = "\<lparr>node_id = 1\<rparr>" and ?n2.0 = "\<lparr>node_id = 2\<rparr>"] s(1-5)
    have "\<exists>l1 l2.
         PtpNet_all_link_data ex_env 0 0 (ex_ptp_pair p) =
           (Inr (if getparams_differ (ifs (ex_ptp_pair p) 1) (ifs (ex_ptp_pair p) 2)
                 then [l1, l2] else [l1]), ex_ptp_pair p) \<and>
         node1_id l1 = Some (node_id \<lparr>node_id = 1\<rparr>) \<and>
         node2_id l1 = Some (node_id \<lparr>node_id = 2\<rparr>) \<and>
         unidirectional l1 =
           Some (if getparams_differ (ifs (ex_ptp_pair p) 1) (ifs (ex_ptp_pair p) 2)
                 then 1 else 0) \<and>
         node1_id l2 = Some (node_id \<lparr>node_id = 2\<rparr>) \<and>
         node2_id l2 = Some (node_id \<lparr>node_id = 1\<rparr>) \<and> unidirectional l2 = Some 1"
      by blast
    then show ?thesis
      unfolding s(6) by simp
  qed
  from pair [of "\<lambda>k. None"] have one: "\<exists>l1. PtpNet_all_link_data ex_env 0 0 (ex_ptp_pair (\<lambda>k. None)) =
           (Inr [l1], ex_ptp_pair (\<lambda>k. None)) \<and>
         node1_id l1 = Some 1 \<and> node2_id l1 = Some 2 \<and> unidirectional l1 = Some 0"
    by auto
  from pair [of "(\<lambda>k. None)(''delay'' \<mapsto> PInt 50)"] ex_params_differ
  have two: "\<exists>l1 l2. PtpNet_all_link_data ex_env 0 0 (ex_ptp_pair ((\<lambda>k. None)(''delay'' \<mapsto> PInt 50))) =
           (Inr [l1, l2], ex_ptp_pair ((\<lambda>k. None)(''delay'' \<mapsto> PInt 50))) \<and>
         node1_id l1 = Some 1 \<and> node2_id l1 = Some 2 \<and> unidirectional l1 = Some 1 \<and>
         node1_id l2 = Some 2 \<and> node2_id l2 = Some 1 \<and> unidirectional l2 = Some 1"
    by auto
  show ?thesis
    using none one two by blast
qed

end
